theory Spec2Isabelle
  imports Complex_Main "HOL-Library.AList"
begin

section \<open>Python values, exceptions and the external collaborators\<close>

text \<open>
  The configuration reader of TARDIS (\<^verbatim>\<open>tardis/io/configuration/config_reader.py\<close>)
  works on the objects a YAML document is made of. A value is \<^verbatim>\<open>None\<close>, a boolean, a
  number, a string, an astropy quantity (magnitude and unit), a unit object (what the
  attribute \<^verbatim>\<open>.unit\<close> of a quantity returns), a list, a plain \<^verbatim>\<open>dict\<close> or a
  \<^verbatim>\<open>ConfigurationNameSpace\<close>. Both kinds of mapping keep their entries in insertion
  order, so they are association lists; a Python dict has no duplicate keys. Magnitudes
  are exact rationals: rounding of floating point numbers is outside this model.
\<close>

datatype val =
    VNone
  | VBool bool
  | VNum rat
  | VStr string
  | VQty rat string
  | VUnit string
  | VList "val list"
  | VDict "(string \<times> val) list"
  | VNs "(string \<times> val) list"

type_synonym items = "(string \<times> val) list"

text \<open>
  The exceptions that the module raises or lets through. \<^verbatim>\<open>ValueError\<close> carries the
  fixed part of its message, which tells the rules apart. \<^verbatim>\<open>RecursionError\<close> is
  Python's answer to a chain of auxiliary documents that is nested too deeply.
\<close>

datatype error =
    KeyError
  | IndexError
  | TypeError
  | AttributeError
  | ValueError string
  | NotImplementedError
  | RecursionError
  | UnitConversionError
  | External string

text \<open>
  Four functions are used but not defined in the module; the model takes them as
  parameters. \<open>quantity v u\<close> is astropy's \<^verbatim>\<open>u.Quantity(v, u)\<close>, which returns a quantity
  or raises; \<open>quantity_bool m u\<close> is the truth value \<^verbatim>\<open>bool(q)\<close> of a quantity, which
  astropy answers or refuses, depending on its version; \<open>validate_dict\<close> is the schema
  validator
  \<^verbatim>\<open>config_validator.validate_dict\<close>; \<open>load_yaml_from_csvy d c\<close> stands for
  \<^verbatim>\<open>load_yaml_from_csvy(Path(d) / c)\<close> and returns the mapping read from the file.
\<close>

record ext =
  quantity :: "val \<Rightarrow> val \<Rightarrow> error + (rat \<times> string)"
  quantity_bool :: "rat \<Rightarrow> string \<Rightarrow> error + bool"
  validate_dict :: "val \<Rightarrow> error + val"
  load_yaml_from_csvy :: "val \<Rightarrow> val \<Rightarrow> error + items"

definition bnd :: "error + 'a \<Rightarrow> ('a \<Rightarrow> error + 'b) \<Rightarrow> error + 'b" where
  "bnd r f = (case r of Inl e \<Rightarrow> Inl e | Inr x \<Rightarrow> f x)"

section \<open>Attribute and item access\<close>

text \<open>
  \<^verbatim>\<open>ConfigurationNameSpace.__getattr__\<close> returns \<^verbatim>\<open>self[item]\<close> when the key is
  present and raises \<^verbatim>\<open>AttributeError\<close> otherwise, so \<^verbatim>\<open>hasattr(ns, name)\<close> is key
  membership for every name that is not a method of \<^verbatim>\<open>dict\<close>. A quantity has the
  attributes \<^verbatim>\<open>unit\<close> and \<^verbatim>\<open>value\<close>; no other value of the model has them.
\<close>

definition ns_getattr :: "items \<Rightarrow> string \<Rightarrow> error + val" where
  "ns_getattr self item =
     (case map_of self item of Some v \<Rightarrow> Inr v | None \<Rightarrow> Inl AttributeError)"

definition ns_hasattr :: "items \<Rightarrow> string \<Rightarrow> bool" where
  "ns_hasattr self item = (item \<in> fst ` set self)"

fun attr_unit :: "val \<Rightarrow> error + val" where
  "attr_unit (VQty m u) = Inr (VUnit u)"
| "attr_unit (VNs kvs) = ns_getattr kvs ''unit''"
| "attr_unit v = Inl AttributeError"

fun attr_value :: "val \<Rightarrow> error + val" where
  "attr_value (VQty m u) = Inr (VNum m)"
| "attr_value (VNs kvs) = ns_getattr kvs ''value''"
| "attr_value v = Inl AttributeError"

definition hasattr_unit :: "val \<Rightarrow> bool" where
  "hasattr_unit v = (case attr_unit v of Inr u \<Rightarrow> True | Inl e \<Rightarrow> False)"

text \<open>\<^verbatim>\<open>d[key]\<close> for a string key: a lookup in both kinds of mapping.\<close>

fun py_getitem :: "val \<Rightarrow> string \<Rightarrow> error + val" where
  "py_getitem (VDict kvs) k = (case map_of kvs k of Some v \<Rightarrow> Inr v | None \<Rightarrow> Inl KeyError)"
| "py_getitem (VNs kvs) k = (case map_of kvs k of Some v \<Rightarrow> Inr v | None \<Rightarrow> Inl KeyError)"
| "py_getitem v k = Inl TypeError"

text \<open>\<^verbatim>\<open>key in d.keys()\<close>; only mappings have the method \<^verbatim>\<open>keys\<close>.\<close>

fun py_has_key :: "val \<Rightarrow> string \<Rightarrow> error + bool" where
  "py_has_key (VDict kvs) k = Inr (k \<in> fst ` set kvs)"
| "py_has_key (VNs kvs) k = Inr (k \<in> fst ` set kvs)"
| "py_has_key v k = Inl AttributeError"

text \<open>
  An integer index into a sequence of length \<open>len\<close>: Python counts a negative index
  from the end, and rejects an index outside \<open>-len \<dots> len - 1\<close>.
\<close>

definition norm_index :: "nat \<Rightarrow> int \<Rightarrow> nat option" where
  "norm_index len i =
     (if 0 \<le> i \<and> i < int len then Some (nat i)
      else if i < 0 \<and> - int len \<le> i then Some (nat (int len + i))
      else None)"

definition list_index :: "'a list \<Rightarrow> int \<Rightarrow> error + 'a" where
  "list_index xs i =
     (case norm_index (length xs) i of None \<Rightarrow> Inl IndexError | Some j \<Rightarrow> Inr (xs ! j))"

definition list_assign :: "'a list \<Rightarrow> int \<Rightarrow> 'a \<Rightarrow> error + 'a list" where
  "list_assign xs i v =
     (case norm_index (length xs) i of None \<Rightarrow> Inl IndexError | Some j \<Rightarrow> Inr (xs[j := v]))"

text \<open>
  \<^verbatim>\<open>v[i]\<close> for an integer \<open>i\<close>: an element of a list, a one-character string of a
  string; the keys of the mappings of the model are strings, so an integer is never
  among them; the remaining values are not subscriptable.
\<close>

fun py_index :: "val \<Rightarrow> int \<Rightarrow> error + val" where
  "py_index (VList xs) i = list_index xs i"
| "py_index (VStr s) i = bnd (list_index s i) (\<lambda>c. Inr (VStr [c]))"
| "py_index (VDict kvs) i = Inl KeyError"
| "py_index (VNs kvs) i = Inl KeyError"
| "py_index v i = Inl TypeError"

section \<open>The recursive namespace\<close>

text \<open>
  Lines 107 to 110 of \<^verbatim>\<open>__setitem__\<close>: when the key is present and the stored value
  has an attribute \<^verbatim>\<open>unit\<close>, the new value becomes
  \<^verbatim>\<open>u.Quantity(value, self[key].unit)\<close>; then \<^verbatim>\<open>dict.__setitem__\<close> stores it, in
  place for a key that exists and at the end otherwise. The constructor of the quantity
  may raise, and it does so before anything is stored.
\<close>

definition coerce_to_stored :: "ext \<Rightarrow> items \<Rightarrow> string \<Rightarrow> val \<Rightarrow> error + val" where
  "coerce_to_stored x self key v =
     (case map_of self key of
        None \<Rightarrow> Inr v
      | Some old \<Rightarrow>
          (case attr_unit old of
             Inl e \<Rightarrow> Inr v
           | Inr u \<Rightarrow> bnd (quantity x v u) (\<lambda>(m, un). Inr (VQty m un))))"

text \<open>
  The constructor \<^verbatim>\<open>ConfigurationNameSpace(value)\<close> and \<^verbatim>\<open>__setitem__\<close> call each
  other: the constructor stores every entry with \<^verbatim>\<open>__setitem__\<close>, which first turns
  a plain \<^verbatim>\<open>dict\<close> into a namespace of its own. \<open>wrap_value\<close> is that first step,
  \<open>fill\<close> the loop of the constructor over the entries, and \<open>reassign\<close> the loop
  \<^verbatim>\<open>for key in self.model: self.model.__setitem__(key, self.model[key])\<close>.

  \<open>setitem\<close> passes the state explicitly: it returns the entries of the node after
  the call, together with the exception if one was raised. Both places that can raise
  come before \<^verbatim>\<open>dict.__setitem__\<close>.

  A node with a key \<^verbatim>\<open>csvy_model\<close> reads an auxiliary document, whose values are
  stored through \<^verbatim>\<open>__setitem__\<close> again and are not part of the value under
  construction. The number \<open>n\<close> bounds how deeply such documents may lead to one
  another; at the bound the model raises \<open>RecursionError\<close>.
\<close>

definition msg_both :: string where
  "msg_both = ''Cannot specify both model and csvy_model in main config file.''"

definition csvy_model_dict :: "items \<Rightarrow> items" where
  "csvy_model_dict csvy_yml =
     (case map_of csvy_yml ''v_inner_boundary'' of
        None \<Rightarrow> [] | Some v \<Rightarrow> [(''v_inner_boundary'', v)])
     @ (case map_of csvy_yml ''v_outer_boundary'' of
          None \<Rightarrow> [] | Some v \<Rightarrow> [(''v_outer_boundary'', v)])"

function (sequential)
      wrap_value :: "ext \<Rightarrow> nat \<Rightarrow> val \<Rightarrow> error + val"
  and init_ns :: "ext \<Rightarrow> nat \<Rightarrow> val \<Rightarrow> error + items"
  and fill :: "ext \<Rightarrow> nat \<Rightarrow> items \<Rightarrow> items \<Rightarrow> error + items"
  and setitem :: "ext \<Rightarrow> nat \<Rightarrow> items \<Rightarrow> string \<Rightarrow> val \<Rightarrow> items \<times> error option"
  and reassign :: "ext \<Rightarrow> nat \<Rightarrow> items \<Rightarrow> string list \<Rightarrow> error + items"
where
  "wrap_value x n (VDict kvs) = bnd (init_ns x n (VDict kvs)) (\<lambda>ns. Inr (VNs ns))"
| "wrap_value x n v = Inr v"
| "init_ns x n v =
     bnd (case v of
            VNone \<Rightarrow> Inr []
          | VDict kvs \<Rightarrow> fill x n [] kvs
          | VNs kvs \<Rightarrow> fill x n [] kvs
          | _ \<Rightarrow> Inl TypeError)
       (\<lambda>self.
          if ns_hasattr self ''csvy_model'' \<and> ns_hasattr self ''model''
          then Inl (ValueError msg_both)
          else if ns_hasattr self ''csvy_model'' then
            bnd (ns_getattr self ''config_dirname'') (\<lambda>dirname.
            bnd (ns_getattr self ''csvy_model'') (\<lambda>csvy.
            bnd (load_yaml_from_csvy x dirname csvy) (\<lambda>csvy_yml.
              (case n of
                 0 \<Rightarrow> Inl RecursionError
               | Suc m \<Rightarrow>
                   (case setitem x m self ''model'' (VDict (csvy_model_dict csvy_yml)) of
                      (s, Some e) \<Rightarrow> Inl e
                    | (s, None) \<Rightarrow>
                        (case map_of s ''model'' of
                           Some (VNs mk) \<Rightarrow>
                             bnd (reassign x m mk (map fst mk))
                               (\<lambda>mk'. Inr (AList.update ''model'' (VNs mk') s))
                         | _ \<Rightarrow> Inl TypeError))))))
          else Inr self)"
| "fill x n self [] = Inr self"
| "fill x n self ((k, v) # rest) =
     (case setitem x n self k v of
        (s, Some e) \<Rightarrow> Inl e
      | (s, None) \<Rightarrow> fill x n s rest)"
| "setitem x n self key v =
     (case wrap_value x n v of
        Inl e \<Rightarrow> (self, Some e)
      | Inr w \<Rightarrow>
          (case coerce_to_stored x self key w of
             Inl e \<Rightarrow> (self, Some e)
           | Inr c \<Rightarrow> (AList.update key c self, None)))"
| "reassign x n self [] = Inr self"
| "reassign x n self (k # ks) =
     (case map_of self k of
        None \<Rightarrow> Inl KeyError
      | Some v \<Rightarrow>
          (case setitem x n self k v of
             (s, Some e) \<Rightarrow> Inl e
           | (s, None) \<Rightarrow> reassign x n s ks))"
  by pat_completeness auto

termination
  apply (relation "measures [
     (\<lambda>a. case a of Inl (Inl (x, n, v)) \<Rightarrow> n | Inl (Inr (x, n, v)) \<Rightarrow> n
                   | Inr (Inl (x, n, s, kvs)) \<Rightarrow> n
                   | Inr (Inr (Inl (x, n, s, k, v))) \<Rightarrow> n
                   | Inr (Inr (Inr (x, n, s, ks))) \<Rightarrow> n),
     (\<lambda>a. case a of Inr (Inr (Inr (x, n, s, ks))) \<Rightarrow> 1 | _ \<Rightarrow> 0),
     (\<lambda>a. case a of Inl (Inl (x, n, v)) \<Rightarrow> size v | Inl (Inr (x, n, v)) \<Rightarrow> size v
                   | Inr (Inl (x, n, s, kvs)) \<Rightarrow> size (VDict kvs)
                   | Inr (Inr (Inl (x, n, s, k, v))) \<Rightarrow> size v
                   | Inr (Inr (Inr (x, n, s, ks))) \<Rightarrow> length ks),
     (\<lambda>a. case a of Inl (Inl (x, n, v)) \<Rightarrow> 3 | Inl (Inr (x, n, v)) \<Rightarrow> 2
                   | Inr (Inl (x, n, s, kvs)) \<Rightarrow> 1
                   | Inr (Inr (Inl (x, n, s, k, v))) \<Rightarrow> 4
                   | Inr (Inr (Inr (x, n, s, ks))) \<Rightarrow> (0::nat))]")
  apply simp_all
  done

section \<open>Access by path\<close>

text \<open>
  \<^verbatim>\<open>str.split(".")\<close>, \<^verbatim>\<open>".".join\<close>, \<^verbatim>\<open>str.startswith("item")\<close> and
  \<^verbatim>\<open>str.replace("item", "")\<close>, which removes every occurrence from left to right.
\<close>

fun split_dot :: "string \<Rightarrow> string list" where
  "split_dot [] = [[]]"
| "split_dot (c # cs) =
     (if c = CHR ''.'' then [] # split_dot cs
      else (case split_dot cs of [] \<Rightarrow> [[c]] | w # ws \<Rightarrow> (c # w) # ws))"


definition startswith_item :: "string \<Rightarrow> bool" where
  "startswith_item s = (take 4 s = ''item'')"

function remove_item :: "string \<Rightarrow> string" where
  "remove_item [] = []"
| "remove_item (c # cs) =
     (if take 4 (c # cs) = ''item'' then remove_item (drop 3 cs) else c # remove_item cs)"
  by pat_completeness auto

termination
  by (relation "measure length") auto

text \<open>
  \<^verbatim>\<open>int(s)\<close> on a string: surrounding white space is dropped, a sign may come first,
  and the decimal digits may be grouped by single underscores. Anything else raises
  \<^verbatim>\<open>ValueError\<close>, and so does a numeral of more than 4300 digits (the default limit of
  the interpreter since Python 3.11); one tag stands for both messages. The strings of
  the model are byte strings: the white space and the digits outside ASCII, which
  Python accepts as well, do not occur in them.
\<close>

definition is_space :: "char \<Rightarrow> bool" where
  "is_space c = (c \<in> set [CHR 0x20, CHR 0x09, CHR 0x0A, CHR 0x0B, CHR 0x0C, CHR 0x0D])"

definition is_digit :: "char \<Rightarrow> bool" where
  "is_digit c = (48 \<le> (of_char c :: nat) \<and> (of_char c :: nat) \<le> 57)"

definition digit_val :: "char \<Rightarrow> nat" where
  "digit_val c = (of_char c :: nat) - 48"

definition strip :: "string \<Rightarrow> string" where
  "strip s = rev (dropWhile is_space (rev (dropWhile is_space s)))"

fun digits :: "bool \<Rightarrow> nat \<Rightarrow> string \<Rightarrow> nat option" where
  "digits after_digit acc [] = (if after_digit then Some acc else None)"
| "digits after_digit acc (c # cs) =
     (if is_digit c then digits True (10 * acc + digit_val c) cs
      else if c = CHR ''_'' \<and> after_digit then digits False acc cs
      else None)"

definition msg_int :: string where
  "msg_int = ''int() cannot convert the string''"

definition max_str_digits :: nat where
  "max_str_digits = 4300"

definition py_int :: "string \<Rightarrow> error + int" where
  "py_int s =
     (case strip s of
        [] \<Rightarrow> Inl (ValueError msg_int)
      | c # cs \<Rightarrow>
          (let body = (if c = CHR ''-'' \<or> c = CHR ''+'' then cs else c # cs) in
           case digits False 0 body of
             None \<Rightarrow> Inl (ValueError msg_int)
           | Some n \<Rightarrow>
               if max_str_digits < length (filter is_digit body)
               then Inl (ValueError msg_int)
               else Inr (if c = CHR ''-'' then - int n else int n)))"

definition item_index :: "string \<Rightarrow> error + int" where
  "item_index seg = py_int (remove_item seg)"

text \<open>
  \<^verbatim>\<open>get_config_item\<close> splits the string and calls itself on the child with the
  remaining segments joined again; the model recurses on the list of segments
  (\<open>split_dot_join_dot\<close> below shows that joining and splitting gives the same list).
  A child that is not a namespace has no method \<^verbatim>\<open>get_config_item\<close>. In
  \<^verbatim>\<open>self[p0][int(...)]\<close> Python looks \<open>p0\<close> up first, then converts the index.
  \<^verbatim>\<open>split\<close> never returns an empty list; there \<^verbatim>\<open>config_item_path[0]\<close> would
  raise \<^verbatim>\<open>IndexError\<close>.
\<close>

definition ns_getitem :: "items \<Rightarrow> string \<Rightarrow> error + val" where
  "ns_getitem self k = (case map_of self k of Some v \<Rightarrow> Inr v | None \<Rightarrow> Inl KeyError)"

fun get_path :: "items \<Rightarrow> string list \<Rightarrow> error + val" where
  "get_path self [] = Inl IndexError"
| "get_path self [k] = ns_getitem self k"
| "get_path self (k # seg # rest) =
     (if rest = [] \<and> startswith_item seg then
        bnd (ns_getitem self k) (\<lambda>c. bnd (item_index seg) (\<lambda>i. py_index c i))
      else
        (case ns_getitem self k of
           Inl e \<Rightarrow> Inl e
         | Inr (VNs kvs) \<Rightarrow> get_path kvs (seg # rest)
         | Inr _ \<Rightarrow> Inl AttributeError))"

definition get_config_item :: "items \<Rightarrow> string \<Rightarrow> error + val" where
  "get_config_item self config_item_string = get_path self (split_dot config_item_string)"

text \<open>
  \<^verbatim>\<open>c[i] = w\<close> for an integer \<open>i\<close>. A string does not support item assignment. For a
  mapping the read of \<^verbatim>\<open>c[i]\<close> that precedes every such assignment in the module has
  already raised \<^verbatim>\<open>KeyError\<close>.
\<close>

fun py_assign_index :: "val \<Rightarrow> int \<Rightarrow> val \<Rightarrow> error + val" where
  "py_assign_index (VList xs) i w = bnd (list_assign xs i w) (\<lambda>ys. Inr (VList ys))"
| "py_assign_index (VDict kvs) i w = Inl KeyError"
| "py_assign_index (VNs kvs) i w = Inl KeyError"
| "py_assign_index v i w = Inl TypeError"

text \<open>
  Lines 173 to 183 of \<^verbatim>\<open>set_config_item\<close>, on the container \<open>c\<close> found at the first
  segment: read the current element, build the quantity when the element has a unit,
  assign. The result is the container after the assignment.
\<close>

definition set_index :: "ext \<Rightarrow> val \<Rightarrow> int \<Rightarrow> val \<Rightarrow> error + val" where
  "set_index x c i v =
     bnd (py_index c i) (\<lambda>current_value.
       (case attr_unit current_value of
          Inr u \<Rightarrow> bnd (quantity x v u) (\<lambda>(m, un). py_assign_index c i (VQty m un))
        | Inl e \<Rightarrow> py_assign_index c i v))"

text \<open>
  \<^verbatim>\<open>set_config_item\<close> changes the tree in place: the list or the child namespace found
  at the first segment is the object stored in the node, so the model puts the changed
  child back under its key. Like \<open>setitem\<close> it returns the entries after the call and
  the exception, if any.
\<close>

fun set_path :: "ext \<Rightarrow> nat \<Rightarrow> items \<Rightarrow> string list \<Rightarrow> val \<Rightarrow> items \<times> error option" where
  "set_path x n self [] v = (self, Some IndexError)"
| "set_path x n self [k] v = setitem x n self k v"
| "set_path x n self (k # seg # rest) v =
     (if rest = [] \<and> startswith_item seg then
        (case bnd (ns_getitem self k) (\<lambda>c. bnd (item_index seg) (\<lambda>i. set_index x c i v)) of
           Inl e \<Rightarrow> (self, Some e)
         | Inr c' \<Rightarrow> (AList.update k c' self, None))
      else
        (case ns_getitem self k of
           Inl e \<Rightarrow> (self, Some e)
         | Inr (VNs kvs) \<Rightarrow>
             (case set_path x n kvs (seg # rest) v of
                (kvs', r) \<Rightarrow> (AList.update k (VNs kvs') self, r))
         | Inr _ \<Rightarrow> (self, Some AttributeError)))"

definition set_config_item ::
    "ext \<Rightarrow> nat \<Rightarrow> items \<Rightarrow> string \<Rightarrow> val \<Rightarrow> items \<times> error option" where
  "set_config_item x n self config_item_string v =
     set_path x n self (split_dot config_item_string) v"

section \<open>Operations of the validation pipeline on raw documents\<close>

text \<open>
  The validators receive the document before it is wrapped; its sections are mappings
  of either kind. \<^verbatim>\<open>d[key] = value\<close> is a plain store for a \<^verbatim>\<open>dict\<close> and
  \<^verbatim>\<open>__setitem__\<close> above for a namespace. \<open>alias_update\<close> is not an operation of the
  source: where the source changes an object that a mapping holds, the model writes the
  changed object back under its key.
\<close>

fun py_setitem :: "ext \<Rightarrow> nat \<Rightarrow> val \<Rightarrow> string \<Rightarrow> val \<Rightarrow> error + val" where
  "py_setitem x n (VDict kvs) k v = Inr (VDict (AList.update k v kvs))"
| "py_setitem x n (VNs kvs) k v =
     (case setitem x n kvs k v of (s, None) \<Rightarrow> Inr (VNs s) | (s, Some e) \<Rightarrow> Inl e)"
| "py_setitem x n d k v = Inl TypeError"

fun alias_update :: "val \<Rightarrow> string \<Rightarrow> val \<Rightarrow> val" where
  "alias_update (VDict kvs) k v = VDict (AList.update k v kvs)"
| "alias_update (VNs kvs) k v = VNs (AList.update k v kvs)"
| "alias_update d k v = d"

text \<open>\<^verbatim>\<open>d.get(key, None)\<close>: only mappings have the method.\<close>

fun py_get :: "val \<Rightarrow> string \<Rightarrow> error + val" where
  "py_get (VDict kvs) k = Inr (case map_of kvs k of Some v \<Rightarrow> v | None \<Rightarrow> VNone)"
| "py_get (VNs kvs) k = Inr (case map_of kvs k of Some v \<Rightarrow> v | None \<Rightarrow> VNone)"
| "py_get v k = Inl AttributeError"

text \<open>
  \<^verbatim>\<open>key in d\<close>: a key of a mapping, an element of a list, a substring of a string;
  the other values are not iterable.
\<close>

definition is_substring :: "string \<Rightarrow> string \<Rightarrow> bool" where
  "is_substring p s = list_ex (\<lambda>i. take (length p) (drop i s) = p) [0..<Suc (length s)]"

fun py_in :: "val \<Rightarrow> string \<Rightarrow> error + bool" where
  "py_in (VDict kvs) k = Inr (k \<in> fst ` set kvs)"
| "py_in (VNs kvs) k = Inr (k \<in> fst ` set kvs)"
| "py_in (VList xs) k = Inr (VStr k \<in> set xs)"
| "py_in (VStr s) k = Inr (is_substring k s)"
| "py_in v k = Inl TypeError"

text \<open>
  The truth value of an object, as \<^verbatim>\<open>if\<close> and \<^verbatim>\<open>and\<close> take it. That of a quantity is
  astropy's to give.
\<close>

fun py_truthy :: "ext \<Rightarrow> val \<Rightarrow> error + bool" where
  "py_truthy x VNone = Inr False"
| "py_truthy x (VBool b) = Inr b"
| "py_truthy x (VNum r) = Inr (r \<noteq> 0)"
| "py_truthy x (VStr s) = Inr (s \<noteq> [])"
| "py_truthy x (VQty m u) = quantity_bool x m u"
| "py_truthy x (VUnit u) = Inr True"
| "py_truthy x (VList xs) = Inr (xs \<noteq> [])"
| "py_truthy x (VDict kvs) = Inr (kvs \<noteq> [])"
| "py_truthy x (VNs kvs) = Inr (kvs \<noteq> [])"

text \<open>
  The ordering comparisons, which the validators apply to magnitudes. Numbers compare
  by value (a boolean counts as 0 or 1) and two strings compare lexicographically by
  their characters; a number against a string, and \<^verbatim>\<open>None\<close>, a mapping or a unit
  against anything, raise \<^verbatim>\<open>TypeError\<close>. The magnitude of a quantity is a number, so
  these are the cases the validators meet on a schema-validated document. Python also
  orders two lists, and astropy orders a quantity against a number; the model does not
  follow these two cases and answers \<^verbatim>\<open>TypeError\<close> there.
\<close>

fun str_lt :: "string \<Rightarrow> string \<Rightarrow> bool" where
  "str_lt [] [] = False"
| "str_lt [] (b # bs) = True"
| "str_lt (a # as) [] = False"
| "str_lt (a # as) (b # bs) =
     ((of_char a :: nat) < of_char b \<or> (a = b \<and> str_lt as bs))"

fun py_num :: "val \<Rightarrow> error + rat" where
  "py_num (VNum r) = Inr r"
| "py_num (VBool b) = Inr (if b then 1 else 0)"
| "py_num v = Inl TypeError"

fun py_lt :: "val \<Rightarrow> val \<Rightarrow> error + bool" where
  "py_lt (VStr s) (VStr t) = Inr (str_lt s t)"
| "py_lt a b = bnd (py_num a) (\<lambda>r. bnd (py_num b) (\<lambda>s. Inr (r < s)))"

fun py_le :: "val \<Rightarrow> val \<Rightarrow> error + bool" where
  "py_le (VStr s) (VStr t) = Inr (str_lt s t \<or> s = t)"
| "py_le a b = bnd (py_num a) (\<lambda>r. bnd (py_num b) (\<lambda>s. Inr (r \<le> s)))"

definition py_gt :: "val \<Rightarrow> val \<Rightarrow> error + bool" where
  "py_gt a b = py_lt b a"

text \<open>\<^verbatim>\<open>if cond: raise ValueError(msg)\<close>, where evaluating the condition may raise.\<close>

definition raise_if :: "error + bool \<Rightarrow> error \<Rightarrow> error + unit" where
  "raise_if cond e = bnd cond (\<lambda>b. if b then Inl e else Inr ())"

section \<open>The validation pipeline\<close>

subsection \<open>Convergence strategy\<close>

text \<open>
  \<^verbatim>\<open>parse_convergence_section\<close> changes its argument in place. The section of a
  variable is the object stored under the variable's name, so the model reads it from
  the section each time and writes it back after an assignment. In line 444 Python
  evaluates the right-hand side \<^verbatim>\<open>convergence_section_dict[param]\<close> first.
\<close>

definition convergence_parameters :: "string list" where
  "convergence_parameters = [''damping_constant'', ''threshold'', ''type'']"

definition convergence_variables :: "string list" where
  "convergence_variables = [''t_inner'', ''t_rad'', ''w'', ''v_inner_boundary'']"

definition inherit_param :: "ext \<Rightarrow> nat \<Rightarrow> string \<Rightarrow> val \<Rightarrow> string \<Rightarrow> error + val" where
  "inherit_param x n var d param =
     bnd (py_getitem d var) (\<lambda>convergence_variable_section.
     bnd (py_get convergence_variable_section param) (\<lambda>cur.
       if cur = VNone then
         bnd (py_in d param) (\<lambda>present.
           if present then
             bnd (py_getitem d param) (\<lambda>pv.
             bnd (py_getitem d var) (\<lambda>sub.
             bnd (py_setitem x n sub param pv) (\<lambda>sub'.
               Inr (alias_update d var sub'))))
           else Inr d)
       else Inr d))"

fun inherit_params :: "ext \<Rightarrow> nat \<Rightarrow> string \<Rightarrow> val \<Rightarrow> string list \<Rightarrow> error + val" where
  "inherit_params x n var d [] = Inr d"
| "inherit_params x n var d (param # ps) =
     bnd (inherit_param x n var d param) (\<lambda>d'. inherit_params x n var d' ps)"

definition parse_variable :: "ext \<Rightarrow> nat \<Rightarrow> val \<Rightarrow> string \<Rightarrow> error + val" where
  "parse_variable x n d var =
     bnd (py_in d var) (\<lambda>present.
     bnd (if \<not> present then py_setitem x n d var (VDict []) else Inr d) (\<lambda>d1.
     bnd (py_getitem d1 var) (\<lambda>convergence_variable_section.
       inherit_params x n var d1 convergence_parameters)))"

fun parse_variables :: "ext \<Rightarrow> nat \<Rightarrow> val \<Rightarrow> string list \<Rightarrow> error + val" where
  "parse_variables x n d [] = Inr d"
| "parse_variables x n d (var # vars) =
     bnd (parse_variable x n d var) (\<lambda>d'. parse_variables x n d' vars)"

definition parse_convergence_section :: "ext \<Rightarrow> nat \<Rightarrow> val \<Rightarrow> error + val" where
  "parse_convergence_section x n convergence_section_dict =
     parse_variables x n convergence_section_dict convergence_variables"

definition msg_convergence :: string where
  "msg_convergence = ''convergence_strategy is not \"damped\" or \"custom\"''"

text \<open>
  \<^verbatim>\<open>validate_montecarlo_section\<close> returns nothing and changes the section in place;
  the model returns the section after the call. The parsed strategy is the object the
  section already holds, which is then assigned to its own key.
\<close>

definition validate_montecarlo_section :: "ext \<Rightarrow> nat \<Rightarrow> val \<Rightarrow> error + val" where
  "validate_montecarlo_section x n montecarlo_section =
     bnd (py_getitem montecarlo_section ''convergence_strategy'') (\<lambda>cs.
     bnd (py_getitem cs ''type'') (\<lambda>t.
       if t = VStr ''damped'' then
         bnd (parse_convergence_section x n cs) (\<lambda>cs'.
           py_setitem x n (alias_update montecarlo_section ''convergence_strategy'' cs')
             ''convergence_strategy'' cs')
       else if t = VStr ''custom'' then Inl NotImplementedError
       else Inl (ValueError msg_convergence)))"

subsection \<open>Model, supernova, plasma and spectrum\<close>

definition msg_stop_velocity :: string where
  "msg_stop_velocity = ''Stop Velocity Cannot Be Less than Start Velocity.''"

definition msg_outer_boundary :: string where
  "msg_outer_boundary = ''Outer Boundary Velocity Cannot Be Less than Inner Boundary Velocity.''"

definition msg_density :: string where
  "msg_density = ''Density Specified is Invalid''"

definition msg_velocity :: string where
  "msg_velocity = ''Velocity Specified is Invalid''"

definition msg_time :: string where
  "msg_time = ''Time Specified is Invalid''"

definition msg_density_value :: string where
  "msg_density_value = ''Density Value Specified is Invalid''"

definition msg_time_explosion :: string where
  "msg_time_explosion = ''Time Of Explosion is Invalid''"

definition msg_luminosity :: string where
  "msg_luminosity = ''Integral Limits for Luminosity Wavelength are Invalid, Start Limit > End Limit''"

definition msg_t_inner :: string where
  "msg_t_inner = ''Initial Temperature of Inner Boundary Black Body is Invalid''"

definition msg_t_rad :: string where
  "msg_t_rad = ''Initial Radiative Temperature is Invalid''"

definition msg_spectrum :: string where
  "msg_spectrum = ''Start Value of Spectrum Cannot be Greater than Stop Value.''"

text \<open>\<^verbatim>\<open>a[k1][k2]\<close> and \<^verbatim>\<open>a[k1][k2][k3]\<close>.\<close>

definition getitem2 :: "val \<Rightarrow> string \<Rightarrow> string \<Rightarrow> error + val" where
  "getitem2 a k1 k2 = bnd (py_getitem a k1) (\<lambda>b. py_getitem b k2)"

definition getitem3 :: "val \<Rightarrow> string \<Rightarrow> string \<Rightarrow> string \<Rightarrow> error + val" where
  "getitem3 a k1 k2 k3 = bnd (getitem2 a k1 k2) (\<lambda>c. py_getitem c k3)"

text \<open>\<^verbatim>\<open>if q.value <= 0: raise ValueError(msg)\<close>.\<close>

definition require_positive :: "val \<Rightarrow> string \<Rightarrow> error + unit" where
  "require_positive q msg =
     raise_if (bnd (attr_value q) (\<lambda>m. py_le m (VNum 0))) (ValueError msg)"

text \<open>
  Lines 374 to 377 (and again 385 to 388, 395 to 398): the optional \<^verbatim>\<open>time_0\<close> of
  the density section.
\<close>

definition check_time_0 :: "val \<Rightarrow> error + unit" where
  "check_time_0 model_section =
     bnd (getitem2 model_section ''structure'' ''density'') (\<lambda>dens.
     bnd (py_has_key dens ''time_0'') (\<lambda>present.
       if present then
         bnd (getitem3 model_section ''structure'' ''density'' ''time_0'') (\<lambda>time_0.
           require_positive time_0 msg_time)
       else Inr ()))"

text \<open>Lines 368 to 377, the same for \<^verbatim>\<open>"exponential"\<close> and \<^verbatim>\<open>"power_law"\<close>.\<close>

definition check_rho_v :: "val \<Rightarrow> error + unit" where
  "check_rho_v model_section =
     bnd (getitem3 model_section ''structure'' ''density'' ''rho_0'') (\<lambda>rho_0.
     bnd (getitem3 model_section ''structure'' ''density'' ''v_0'') (\<lambda>v_0.
     bnd (require_positive rho_0 msg_density) (\<lambda>_.
     bnd (require_positive v_0 msg_velocity) (\<lambda>_.
       check_time_0 model_section))))"

text \<open>Lines 348 to 365: the velocity bounds, by the type of the structure.\<close>

definition validate_structure :: "val \<Rightarrow> error + unit" where
  "validate_structure model_section =
     bnd (getitem2 model_section ''structure'' ''type'') (\<lambda>t.
       if t = VStr ''specific'' then
         bnd (getitem3 model_section ''structure'' ''velocity'' ''start'') (\<lambda>start_velocity.
         bnd (getitem3 model_section ''structure'' ''velocity'' ''stop'') (\<lambda>stop_velocity.
           raise_if (bnd (attr_value stop_velocity) (\<lambda>a.
                     bnd (attr_value start_velocity) (\<lambda>b. py_lt a b)))
             (ValueError msg_stop_velocity)))
       else if t = VStr ''file'' then
         bnd (getitem2 model_section ''structure'' ''v_inner_boundary'') (\<lambda>v_inner_boundary.
         bnd (getitem2 model_section ''structure'' ''v_outer_boundary'') (\<lambda>v_outer_boundary.
           raise_if (bnd (attr_value v_outer_boundary) (\<lambda>a.
                     bnd (attr_value v_inner_boundary) (\<lambda>b. py_lt a b)))
             (ValueError msg_outer_boundary)))
       else Inr ())"

text \<open>Lines 366 to 398: the density section, by its type.\<close>

definition validate_density :: "val \<Rightarrow> error + unit" where
  "validate_density model_section =
     bnd (py_getitem model_section ''structure'') (\<lambda>structure.
     bnd (py_has_key structure ''density'') (\<lambda>present.
       if present then
         bnd (getitem3 model_section ''structure'' ''density'' ''type'') (\<lambda>t.
           if t = VStr ''exponential'' then check_rho_v model_section
           else if t = VStr ''power_law'' then check_rho_v model_section
           else if t = VStr ''uniform'' then
             bnd (getitem3 model_section ''structure'' ''density'' ''value'') (\<lambda>density.
             bnd (require_positive density msg_density_value) (\<lambda>_.
               check_time_0 model_section))
           else Inr ())
       else Inr ()))"

definition validate_model_section :: "val \<Rightarrow> error + unit" where
  "validate_model_section model_section =
     bnd (validate_structure model_section) (\<lambda>_. validate_density model_section)"

text \<open>Lines 321 to 328: the bounds of the spectrum.\<close>

definition check_spectrum_range :: "val \<Rightarrow> error + unit" where
  "check_spectrum_range spectrum_section =
     bnd (py_getitem spectrum_section ''start'') (\<lambda>start.
     bnd (py_getitem spectrum_section ''stop'') (\<lambda>stop.
       raise_if (bnd (attr_value start) (\<lambda>a. bnd (attr_value stop) (\<lambda>b. py_gt a b)))
         (ValueError msg_spectrum)))"

text \<open>
  Lines 330 to 337. In \<^verbatim>\<open>enable_full_relativity and spectrum_integrated\<close> Python takes
  the truth value of the flag first.
\<close>

definition validate_spectrum_section :: "ext \<Rightarrow> val \<Rightarrow> val \<Rightarrow> error + unit" where
  "validate_spectrum_section x spectrum_section enable_full_relativity =
     bnd (check_spectrum_range spectrum_section) (\<lambda>_.
     bnd (py_getitem spectrum_section ''method'') (\<lambda>method.
     bnd (py_truthy x enable_full_relativity) (\<lambda>relativity.
       if relativity \<and> method = VStr ''integrated''
       then Inl NotImplementedError
       else Inr ())))"

text \<open>Lines 264 to 285 and 288 to 299 of \<^verbatim>\<open>from_config_dict\<close>.\<close>

definition validate_supernova :: "val \<Rightarrow> error + unit" where
  "validate_supernova validated_config_dict =
     bnd (py_getitem validated_config_dict ''supernova'') (\<lambda>supernova_section.
     bnd (py_getitem supernova_section ''time_explosion'') (\<lambda>time_explosion.
     bnd (py_getitem supernova_section ''luminosity_wavelength_start'') (\<lambda>lws.
     bnd (py_getitem supernova_section ''luminosity_wavelength_end'') (\<lambda>lwe.
     bnd (require_positive time_explosion msg_time_explosion) (\<lambda>_.
       raise_if (bnd (attr_value lws) (\<lambda>a. bnd (attr_value lwe) (\<lambda>b. py_gt a b)))
         (ValueError msg_luminosity))))))"

definition validate_plasma :: "val \<Rightarrow> error + unit" where
  "validate_plasma validated_config_dict =
     bnd (py_getitem validated_config_dict ''plasma'') (\<lambda>plasma_section.
     bnd (py_getitem plasma_section ''initial_t_inner'') (\<lambda>initial_t_inner.
     bnd (py_getitem plasma_section ''initial_t_rad'') (\<lambda>initial_t_rad.
     bnd (raise_if (bnd (attr_value initial_t_inner) (\<lambda>a. py_lt a (VNum (- 1))))
            (ValueError msg_t_inner)) (\<lambda>_.
       raise_if (bnd (attr_value initial_t_rad) (\<lambda>a. py_lt a (VNum (- 1))))
         (ValueError msg_t_rad)))))"

text \<open>Lines 258 to 299: nothing for a csvy model, the three sections for a model.\<close>

definition validate_model_branch :: "val \<Rightarrow> error + unit" where
  "validate_model_branch validated_config_dict =
     bnd (py_has_key validated_config_dict ''csvy_model'') (\<lambda>csvy.
       if csvy then Inr ()
       else
         bnd (py_has_key validated_config_dict ''model'') (\<lambda>model.
           if model then
             bnd (py_getitem validated_config_dict ''model'') (\<lambda>model_section.
             bnd (validate_model_section model_section) (\<lambda>_.
             bnd (validate_supernova validated_config_dict) (\<lambda>_.
               validate_plasma validated_config_dict)))
           else Inr ()))"

section \<open>The facade\<close>

text \<open>
  \<^verbatim>\<open>Configuration.from_config_dict(config_dict, validate, config_dirname)\<close>. The
  montecarlo section is changed in place by its validator, so the document holds the
  changed section afterwards. The result is the namespace built by
  \<^verbatim>\<open>cls(validated_config_dict)\<close>.
\<close>

definition from_config_dict :: "ext \<Rightarrow> nat \<Rightarrow> val \<Rightarrow> bool \<Rightarrow> string \<Rightarrow> error + items" where
  "from_config_dict x n config_dict validate config_dirname =
     bnd (if validate then validate_dict x config_dict else Inr config_dict) (\<lambda>validated.
     bnd (py_setitem x n validated ''config_dirname'' (VStr config_dirname)) (\<lambda>d1.
     bnd (py_getitem d1 ''montecarlo'') (\<lambda>montecarlo_section.
     bnd (validate_montecarlo_section x n montecarlo_section) (\<lambda>montecarlo_section'.
       (let d2 = alias_update d1 ''montecarlo'' montecarlo_section' in
        bnd (validate_model_branch d2) (\<lambda>_.
        bnd (py_getitem d2 ''spectrum'') (\<lambda>spectrum_section.
        bnd (py_getitem montecarlo_section' ''enable_full_relativity'') (\<lambda>efr.
        bnd (validate_spectrum_section x spectrum_section efr) (\<lambda>_.
          init_ns x n d2)))))))))"

section \<open>Concrete inputs\<close>

text \<open>
  An instance of the external functions, used to evaluate the model on concrete
  documents: the quantity constructor accepts a number and a quantity of the same unit,
  and reports a unit conversion error for a quantity of another unit; a quantity has
  no truth value; the schema validator returns its argument; the auxiliary document is
  empty.
\<close>

definition ext0 :: ext where
  "ext0 =
     \<lparr>quantity = (\<lambda>v u. case (v, u) of
          (VQty m a, VUnit b) \<Rightarrow> if a = b then Inr (m, b) else Inl UnitConversionError
        | (VNum m, VUnit b) \<Rightarrow> Inr (m, b)
        | _ \<Rightarrow> Inl TypeError),
      quantity_bool = (\<lambda>m u. Inl (ValueError ''Quantity truthiness is ambiguous'')),
      validate_dict = Inr,
      load_yaml_from_csvy = (\<lambda>d c. Inr [])\<rparr>"

definition model_unknown_density :: val where
  "model_unknown_density =
     VDict [(''structure'',
        VDict [(''type'', VStr ''specific''),
               (''velocity'',
                VDict [(''start'', VQty 100 ''km/s''), (''stop'', VQty 50 ''km/s'')]),
               (''density'',
                VDict [(''type'', VStr ''branch85_w7''), (''rho_0'', VQty (- 1) ''g/cm^3'')])])]"

text \<open>
  Documents for the facade: a custom convergence strategy; the integrated spectrum
  method with full relativity, once with the bounds of the spectrum in the wrong order
  and once in the right order.
\<close>

definition doc_custom :: val where
  "doc_custom = VDict [(''montecarlo'', VDict [(''convergence_strategy'', VDict [(''type'', VStr ''custom'')])])]"

definition doc_integrated_reversed :: val where
  "doc_integrated_reversed =
     VDict [(''montecarlo'',
             VDict [(''convergence_strategy'', VDict [(''type'', VStr ''damped'')]),
                    (''enable_full_relativity'', VBool True)]),
            (''spectrum'',
             VDict [(''start'', VQty 2 ''angstrom''), (''stop'', VQty 1 ''angstrom''),
                    (''method'', VStr ''integrated'')])]"

definition doc_integrated :: val where
  "doc_integrated =
     VDict [(''montecarlo'',
             VDict [(''convergence_strategy'', VDict [(''type'', VStr ''damped'')]),
                    (''enable_full_relativity'', VBool True)]),
            (''spectrum'',
             VDict [(''start'', VQty 1 ''angstrom''), (''stop'', VQty 2 ''angstrom''),
                    (''method'', VStr ''integrated'')])]"

text \<open>
  The decimal numeral of a natural number, as in the segment \<^verbatim>\<open>item12\<close>. It is not a
  function of the source; it states which segments denote which index.
\<close>

function decimal :: "nat \<Rightarrow> string" where
  "decimal n =
     (if n < 10 then [char_of (48 + n)]
      else decimal (n div 10) @ [char_of (48 + n mod 10)])"
  by pat_completeness auto

termination
  by (relation "measure id") auto

text \<open>
  A configuration with a model, parametrized by the stop velocity of the structure,
  the time of explosion, the initial inner temperature and the stop of the spectrum.
\<close>

definition montecarlo_damped :: val where
  "montecarlo_damped =
     VDict [(''convergence_strategy'',
             VDict [(''type'', VStr ''damped''), (''damping_constant'', VNum 1),
                    (''threshold'', VNum (5 / 100))]),
            (''enable_full_relativity'', VBool False)]"

definition config_with :: "rat \<Rightarrow> rat \<Rightarrow> rat \<Rightarrow> rat \<Rightarrow> val" where
  "config_with stop_velocity time_explosion initial_t_inner spectrum_stop =
     VDict [(''montecarlo'', montecarlo_damped),
            (''model'',
             VDict [(''structure'',
                     VDict [(''type'', VStr ''specific''),
                            (''velocity'',
                             VDict [(''start'', VQty 11000 ''km/s''),
                                    (''stop'', VQty stop_velocity ''km/s'')])])]),
            (''supernova'',
             VDict [(''time_explosion'', VQty time_explosion ''day''),
                    (''luminosity_wavelength_start'', VQty 3000 ''angstrom''),
                    (''luminosity_wavelength_end'', VQty 9000 ''angstrom'')]),
            (''plasma'',
             VDict [(''initial_t_inner'', VQty initial_t_inner ''K''),
                    (''initial_t_rad'', VQty (- 1) ''K'')]),
            (''spectrum'',
             VDict [(''start'', VQty 500 ''angstrom''), (''stop'', VQty spectrum_stop ''angstrom''),
                    (''method'', VStr ''virtual'')])]"

text \<open>Nodes for access by path.\<close>

definition supernova_node :: items where
  "supernova_node =
     [(''supernova'', VNs [(''time_explosion'', VQty 13 ''day'')]),
      (''abundances'', VList [VQty 1 ''g'', VQty 2 ''g'', VQty 3 ''g''])]"



text \<open>
  Documents that declare both \<^verbatim>\<open>model\<close> and \<^verbatim>\<open>csvy_model\<close>; in the first the model
  section has a key \<^verbatim>\<open>csvy_model\<close> of its own.
\<close>

definition doc_both :: val where
  "doc_both =
     VDict [(''csvy_model'', VStr ''model.csvy''),
            (''model'', VDict [(''csvy_model'', VStr ''inner.csvy'')])]"

definition doc_both_plain :: val where
  "doc_both_plain =
     VDict [(''csvy_model'', VStr ''model.csvy''),
            (''model'', VDict [(''structure'', VDict [(''type'', VStr ''specific'')])])]"

section \<open>Plain mappings inside a namespace\<close>

text \<open>
  The property of claim C8, as a predicate on values. \<open>no_raw v\<close> holds when no
  namespace node that is reached from \<open>v\<close> through mappings holds a plain \<^verbatim>\<open>dict\<close> as
  the value of a key. Lists are not looked into: the source does not look into them
  either. \<open>csvy_no_raw\<close> says the same of the values that the reader of auxiliary
  documents returns.
\<close>

fun is_plain_dict :: "val \<Rightarrow> bool" where
  "is_plain_dict (VDict kvs) = True"
| "is_plain_dict v = False"

fun no_raw :: "val \<Rightarrow> bool" where
  "no_raw (VDict kvs) = (\<forall>v\<in>snd ` set kvs. no_raw v)"
| "no_raw (VNs kvs) = (\<forall>v\<in>snd ` set kvs. \<not> is_plain_dict v \<and> no_raw v)"
| "no_raw v = True"

definition csvy_no_raw :: "ext \<Rightarrow> bool" where
  "csvy_no_raw x =
     (\<forall>d c yml. load_yaml_from_csvy x d c = Inr yml \<longrightarrow> (\<forall>v\<in>snd ` set yml. no_raw v))"

text \<open>Documents and nodes for the constructor.\<close>

definition doc_list_of_dicts :: val where
  "doc_list_of_dicts = VDict [(''a'', VList [VDict [(''b'', VNum 1)]])]"

definition doc_model :: val where
  "doc_model = VDict [(''model'', VDict [(''structure'', VDict [(''type'', VStr ''specific'')])])]"

definition node_model :: items where
  "node_model = [(''model'', VNs [(''structure'', VNs [(''type'', VStr ''specific'')])])]"

section \<open>Basic facts\<close>

lemma bnd_Inl [simp]: "bnd (Inl e) f = Inl e"
  by (simp add: bnd_def)

lemma bnd_Inr [simp]: "bnd (Inr a) f = f a"
  by (simp add: bnd_def)

lemma bnd_Inr_id [simp]: "bnd r Inr = r"
  by (cases r) simp_all

lemma bnd_Inr_iff: "(bnd r f = Inr y) = (\<exists>a. r = Inr a \<and> f a = Inr y)"
  by (cases r) simp_all

section \<open>Density sections of an unknown type\<close>

text \<open>
  Claim C10. When the model section has a \<^verbatim>\<open>structure.density\<close> sub-section whose
  \<^verbatim>\<open>type\<close> is none of \<^verbatim>\<open>"exponential"\<close>, \<^verbatim>\<open>"power_law"\<close> and \<^verbatim>\<open>"uniform"\<close>, the
  density part of \<^verbatim>\<open>validate_model_section\<close> checks nothing and raises nothing: the
  outcome of the whole validator is the outcome of the velocity bounds alone.
\<close>

theorem unknown_density_type_passes:
  assumes "py_getitem model_section ''structure'' = Inr structure"
    and "py_has_key structure ''density'' = Inr True"
    and "py_getitem structure ''density'' = Inr density"
    and "py_getitem density ''type'' = Inr t"
    and "t \<noteq> VStr ''exponential''" and "t \<noteq> VStr ''power_law''" and "t \<noteq> VStr ''uniform''"
  shows "validate_density model_section = Inr ()
       \<and> validate_model_section model_section = validate_structure model_section"
proof -
  have d: "validate_density model_section = Inr ()"
    using assms by (simp add: validate_density_def getitem3_def getitem2_def)
  then show ?thesis
    by (simp add: validate_model_section_def)
qed

text \<open>
  A density section of type \<^verbatim>\<open>"branch85_w7"\<close> with a negative \<^verbatim>\<open>rho_0\<close> is not
  looked at; the error of this document comes from the velocity bounds.
\<close>

theorem unknown_density_type_passes_witness:
  "validate_density model_unknown_density = Inr ()
   \<and> validate_model_section model_unknown_density = Inl (ValueError msg_stop_velocity)"
proof -
  have s: "validate_structure model_unknown_density = Inl (ValueError msg_stop_velocity)"
    by (simp add: validate_structure_def model_unknown_density_def getitem3_def getitem2_def
        raise_if_def)
  have "validate_density model_unknown_density = Inr ()
       \<and> validate_model_section model_unknown_density = validate_structure model_unknown_density"
    by (rule unknown_density_type_passes
          [of _ "VDict [(''type'', VStr ''specific''),
               (''velocity'',
                VDict [(''start'', VQty 100 ''km/s''), (''stop'', VQty 50 ''km/s'')]),
               (''density'',
                VDict [(''type'', VStr ''branch85_w7''), (''rho_0'', VQty (- 1) ''g/cm^3'')])]"
              "VDict [(''type'', VStr ''branch85_w7''), (''rho_0'', VQty (- 1) ''g/cm^3'')]"
              "VStr ''branch85_w7''"])
       (simp_all add: model_unknown_density_def)
  with s show ?thesis by simp
qed

section \<open>Evaluation of the model on concrete documents\<close>

lemmas eval_defs = from_config_dict_def validate_montecarlo_section_def parse_convergence_section_def
  parse_variable_def inherit_param_def convergence_variables_def convergence_parameters_def
  validate_model_branch_def validate_spectrum_section_def check_spectrum_range_def raise_if_def
  py_gt_def getitem2_def getitem3_def ns_hasattr_def ns_getattr_def
  coerce_to_stored_def ext0_def

section \<open>The flag \<open>validate\<close> of the facade\<close>

text \<open>
  Claim C1, as stated, fails: with \<^verbatim>\<open>validate=False\<close> a document whose convergence
  strategy is \<^verbatim>\<open>"custom"\<close> is rejected by the montecarlo rule, so the rules of the
  pipeline are checked on that call path.
\<close>

theorem validate_false_counterexample:
  "from_config_dict ext0 0 doc_custom False [] = Inl NotImplementedError"
  by (simp add: eval_defs doc_custom_def)

lemmas section_defs = validate_model_section_def validate_structure_def validate_density_def
  validate_supernova_def validate_plasma_def require_positive_def


text \<open>
  Claim C1, amended. The flag switches off the schema validator only: with
  \<^verbatim>\<open>validate=True\<close> the facade is the schema validator followed by what the facade
  does with \<^verbatim>\<open>validate=False\<close>. With \<^verbatim>\<open>validate=False\<close>, for a document that takes
  the entry \<^verbatim>\<open>config_dirname\<close> and holds a montecarlo section, every rule of the
  pipeline is checked on the raw document: a namespace is returned only if the
  montecarlo rule, the rules of the model branch and the spectrum rule have all
  passed, and it is built from the document with the normalized montecarlo section;
  and the exception of the first rule that fails, in the order montecarlo, model,
  supernova, plasma (the last three for a document with \<^verbatim>\<open>model\<close> and without
  \<^verbatim>\<open>csvy_model\<close>), spectrum, is the exception of the facade.
\<close>

theorem validate_false_keeps_pipeline:
  assumes "py_setitem x n d ''config_dirname'' (VStr dir) = Inr d1"
      and "py_getitem d1 ''montecarlo'' = Inr ms"
  shows "from_config_dict x n d True dir
           = bnd (validate_dict x d) (\<lambda>v. from_config_dict x n v False dir)
       \<and> (\<forall>tree. from_config_dict x n d False dir = Inr tree \<longrightarrow>
             (\<exists>ms' ss efr.
                 validate_montecarlo_section x n ms = Inr ms'
               \<and> validate_model_branch (alias_update d1 ''montecarlo'' ms') = Inr ()
               \<and> py_getitem (alias_update d1 ''montecarlo'' ms') ''spectrum'' = Inr ss
               \<and> py_getitem ms' ''enable_full_relativity'' = Inr efr
               \<and> validate_spectrum_section x ss efr = Inr ()
               \<and> init_ns x n (alias_update d1 ''montecarlo'' ms') = Inr tree))
       \<and> (\<forall>e. validate_montecarlo_section x n ms = Inl e
             \<longrightarrow> from_config_dict x n d False dir = Inl e)
       \<and> (\<forall>ms' m e.
             validate_montecarlo_section x n ms = Inr ms'
             \<and> py_has_key (alias_update d1 ''montecarlo'' ms') ''csvy_model'' = Inr False
             \<and> py_getitem (alias_update d1 ''montecarlo'' ms') ''model'' = Inr m
             \<and> validate_model_section m = Inl e
             \<longrightarrow> from_config_dict x n d False dir = Inl e)
       \<and> (\<forall>ms' m e.
             validate_montecarlo_section x n ms = Inr ms'
             \<and> py_has_key (alias_update d1 ''montecarlo'' ms') ''csvy_model'' = Inr False
             \<and> py_getitem (alias_update d1 ''montecarlo'' ms') ''model'' = Inr m
             \<and> validate_model_section m = Inr ()
             \<and> validate_supernova (alias_update d1 ''montecarlo'' ms') = Inl e
             \<longrightarrow> from_config_dict x n d False dir = Inl e)
       \<and> (\<forall>ms' m e.
             validate_montecarlo_section x n ms = Inr ms'
             \<and> py_has_key (alias_update d1 ''montecarlo'' ms') ''csvy_model'' = Inr False
             \<and> py_getitem (alias_update d1 ''montecarlo'' ms') ''model'' = Inr m
             \<and> validate_model_section m = Inr ()
             \<and> validate_supernova (alias_update d1 ''montecarlo'' ms') = Inr ()
             \<and> validate_plasma (alias_update d1 ''montecarlo'' ms') = Inl e
             \<longrightarrow> from_config_dict x n d False dir = Inl e)
       \<and> (\<forall>ms' ss efr e.
             validate_montecarlo_section x n ms = Inr ms'
             \<and> validate_model_branch (alias_update d1 ''montecarlo'' ms') = Inr ()
             \<and> py_getitem (alias_update d1 ''montecarlo'' ms') ''spectrum'' = Inr ss
             \<and> py_getitem ms' ''enable_full_relativity'' = Inr efr
             \<and> validate_spectrum_section x ss efr = Inl e
             \<longrightarrow> from_config_dict x n d False dir = Inl e)"
proof -
  have f: "from_config_dict x n d False dir =
     bnd (validate_montecarlo_section x n ms) (\<lambda>montecarlo_section'.
        bnd (validate_model_branch (alias_update d1 ''montecarlo'' montecarlo_section')) (\<lambda>_.
        bnd (py_getitem (alias_update d1 ''montecarlo'' montecarlo_section') ''spectrum'')
          (\<lambda>spectrum_section.
        bnd (py_getitem montecarlo_section' ''enable_full_relativity'') (\<lambda>efr.
        bnd (validate_spectrum_section x spectrum_section efr) (\<lambda>_.
          init_ns x n (alias_update d1 ''montecarlo'' montecarlo_section'))))))"
    using assms by (simp add: from_config_dict_def Let_def del: init_ns.simps)
  have k: "py_getitem d2 ''model'' = Inr m \<Longrightarrow> py_has_key d2 ''model'' = Inr True" for d2 m
    by (cases d2) (auto split: option.splits dest!: map_of_SomeD
        intro: image_eqI [where x = "(''model'', m)"])
  have b: "py_has_key d2 ''csvy_model'' = Inr False \<Longrightarrow> py_getitem d2 ''model'' = Inr m \<Longrightarrow>
           validate_model_branch d2
           = bnd (validate_model_section m) (\<lambda>_.
             bnd (validate_supernova d2) (\<lambda>_. validate_plasma d2))" for d2 m
    using k [of d2 m] by (simp add: validate_model_branch_def)
  have c1: "from_config_dict x n d True dir
           = bnd (validate_dict x d) (\<lambda>v. from_config_dict x n v False dir)"
    by (simp add: from_config_dict_def)
  have c2: "from_config_dict x n d False dir = Inr tree \<longrightarrow>
             (\<exists>ms' ss efr.
                 validate_montecarlo_section x n ms = Inr ms'
               \<and> validate_model_branch (alias_update d1 ''montecarlo'' ms') = Inr ()
               \<and> py_getitem (alias_update d1 ''montecarlo'' ms') ''spectrum'' = Inr ss
               \<and> py_getitem ms' ''enable_full_relativity'' = Inr efr
               \<and> validate_spectrum_section x ss efr = Inr ()
               \<and> init_ns x n (alias_update d1 ''montecarlo'' ms') = Inr tree)" for tree
    unfolding f bnd_Inr_iff by auto
  have c3: "validate_montecarlo_section x n ms = Inl e
             \<longrightarrow> from_config_dict x n d False dir = Inl e" for e
    unfolding f by simp
  have c4: "validate_montecarlo_section x n ms = Inr ms'
             \<and> py_has_key (alias_update d1 ''montecarlo'' ms') ''csvy_model'' = Inr False
             \<and> py_getitem (alias_update d1 ''montecarlo'' ms') ''model'' = Inr m
             \<and> validate_model_section m = Inl e
             \<longrightarrow> from_config_dict x n d False dir = Inl e" for ms' m e
    unfolding f by (auto simp: b simp del: init_ns.simps)
  have c5: "validate_montecarlo_section x n ms = Inr ms'
             \<and> py_has_key (alias_update d1 ''montecarlo'' ms') ''csvy_model'' = Inr False
             \<and> py_getitem (alias_update d1 ''montecarlo'' ms') ''model'' = Inr m
             \<and> validate_model_section m = Inr ()
             \<and> validate_supernova (alias_update d1 ''montecarlo'' ms') = Inl e
             \<longrightarrow> from_config_dict x n d False dir = Inl e" for ms' m e
    unfolding f by (auto simp: b simp del: init_ns.simps)
  have c6: "validate_montecarlo_section x n ms = Inr ms'
             \<and> py_has_key (alias_update d1 ''montecarlo'' ms') ''csvy_model'' = Inr False
             \<and> py_getitem (alias_update d1 ''montecarlo'' ms') ''model'' = Inr m
             \<and> validate_model_section m = Inr ()
             \<and> validate_supernova (alias_update d1 ''montecarlo'' ms') = Inr ()
             \<and> validate_plasma (alias_update d1 ''montecarlo'' ms') = Inl e
             \<longrightarrow> from_config_dict x n d False dir = Inl e" for ms' m e
    unfolding f by (auto simp: b simp del: init_ns.simps)
  have c7: "validate_montecarlo_section x n ms = Inr ms'
             \<and> validate_model_branch (alias_update d1 ''montecarlo'' ms') = Inr ()
             \<and> py_getitem (alias_update d1 ''montecarlo'' ms') ''spectrum'' = Inr ss
             \<and> py_getitem ms' ''enable_full_relativity'' = Inr efr
             \<and> validate_spectrum_section x ss efr = Inl e
             \<longrightarrow> from_config_dict x n d False dir = Inl e" for ms' ss efr e
    unfolding f by (auto simp del: init_ns.simps)
  show ?thesis
    by (intro conjI allI c1 c2 c3 c4 c5 c6 c7)
qed


text \<open>
  With \<^verbatim>\<open>validate=False\<close>: the custom strategy, a stop velocity below the start
  velocity, a negative time of explosion, an inner temperature below -1 and a
  spectrum that stops before it starts are each rejected with the exception of their
  rule; the document that satisfies all rules is accepted.
\<close>

theorem validate_false_keeps_pipeline_witness:
  "from_config_dict ext0 0 doc_custom False [] = Inl NotImplementedError
   \<and> from_config_dict ext0 0 doc_custom True [] = Inl NotImplementedError
   \<and> from_config_dict ext0 0 (config_with 50 13 (- 1) 20000) False []
       = Inl (ValueError msg_stop_velocity)
   \<and> from_config_dict ext0 0 (config_with 20000 (- 5) (- 1) 20000) False []
       = Inl (ValueError msg_time_explosion)
   \<and> from_config_dict ext0 0 (config_with 20000 13 (- 2) 20000) False []
       = Inl (ValueError msg_t_inner)
   \<and> from_config_dict ext0 0 (config_with 20000 13 (- 1) 100) False []
       = Inl (ValueError msg_spectrum)
   \<and> (\<exists>tree ms'.
         from_config_dict ext0 0 (config_with 20000 13 (- 1) 20000) False [] = Inr tree
         \<and> validate_montecarlo_section ext0 0 montecarlo_damped = Inr ms'
         \<and> validate_model_branch
             (alias_update
               (alias_update (config_with 20000 13 (- 1) 20000) ''config_dirname'' (VStr []))
               ''montecarlo'' ms') = Inr ())"
proof -
  have a1: "py_setitem ext0 0 (config_with a b c d) ''config_dirname'' (VStr [])
            = Inr (alias_update (config_with a b c d) ''config_dirname'' (VStr []))"
    for a b c d
    by (simp add: config_with_def)
  have a2: "py_getitem (alias_update (config_with a b c d) ''config_dirname'' (VStr []))
              ''montecarlo'' = Inr montecarlo_damped" for a b c d
    by (simp add: config_with_def)
  note t = validate_false_keeps_pipeline [OF a1 a2]
  note ev = eval_defs section_defs config_with_def montecarlo_damped_def
  have b1: "py_setitem ext0 0 doc_custom ''config_dirname'' (VStr [])
            = Inr (alias_update doc_custom ''config_dirname'' (VStr []))"
    by (simp add: doc_custom_def)
  have b2: "py_getitem (alias_update doc_custom ''config_dirname'' (VStr [])) ''montecarlo''
            = Inr (VDict [(''convergence_strategy'', VDict [(''type'', VStr ''custom'')])])"
    by (simp add: doc_custom_def)
  have "validate_montecarlo_section ext0 0
          (VDict [(''convergence_strategy'', VDict [(''type'', VStr ''custom'')])])
        = Inl NotImplementedError"
    by (simp add: validate_montecarlo_section_def)
  with validate_false_keeps_pipeline [OF b1 b2, THEN conjunct2, THEN conjunct2, THEN conjunct1]
  have r1: "from_config_dict ext0 0 doc_custom False [] = Inl NotImplementedError"
    by blast
  have "validate_dict ext0 doc_custom = Inr doc_custom"
    by (simp add: ext0_def)
  with r1 validate_false_keeps_pipeline [OF b1 b2, THEN conjunct1]
  have r2: "from_config_dict ext0 0 doc_custom True [] = Inl NotImplementedError"
    by simp
  let ?d1 = "alias_update (config_with 50 13 (- 1) 20000) ''config_dirname'' (VStr [])"
  have "\<exists>ms' m. validate_montecarlo_section ext0 0 montecarlo_damped = Inr ms'
          \<and> py_has_key (alias_update ?d1 ''montecarlo'' ms') ''csvy_model'' = Inr False
          \<and> py_getitem (alias_update ?d1 ''montecarlo'' ms') ''model'' = Inr m
          \<and> validate_model_section m = Inl (ValueError msg_stop_velocity)"
    by (simp add: ev)
  with t [of 50 13 "- 1" 20000, THEN conjunct2, THEN conjunct2, THEN conjunct2, THEN conjunct1]
  have r3: "from_config_dict ext0 0 (config_with 50 13 (- 1) 20000) False []
            = Inl (ValueError msg_stop_velocity)"
    by blast
  let ?d1 = "alias_update (config_with 20000 (- 5) (- 1) 20000) ''config_dirname'' (VStr [])"
  have "\<exists>ms' m. validate_montecarlo_section ext0 0 montecarlo_damped = Inr ms'
          \<and> py_has_key (alias_update ?d1 ''montecarlo'' ms') ''csvy_model'' = Inr False
          \<and> py_getitem (alias_update ?d1 ''montecarlo'' ms') ''model'' = Inr m
          \<and> validate_model_section m = Inr ()
          \<and> validate_supernova (alias_update ?d1 ''montecarlo'' ms')
              = Inl (ValueError msg_time_explosion)"
    by (simp add: ev)
  with t [of 20000 "- 5" "- 1" 20000, THEN conjunct2, THEN conjunct2, THEN conjunct2, THEN conjunct2, THEN conjunct1]
  have r4: "from_config_dict ext0 0 (config_with 20000 (- 5) (- 1) 20000) False []
            = Inl (ValueError msg_time_explosion)"
    by blast
  let ?d1 = "alias_update (config_with 20000 13 (- 2) 20000) ''config_dirname'' (VStr [])"
  have "\<exists>ms' m. validate_montecarlo_section ext0 0 montecarlo_damped = Inr ms'
          \<and> py_has_key (alias_update ?d1 ''montecarlo'' ms') ''csvy_model'' = Inr False
          \<and> py_getitem (alias_update ?d1 ''montecarlo'' ms') ''model'' = Inr m
          \<and> validate_model_section m = Inr ()
          \<and> validate_supernova (alias_update ?d1 ''montecarlo'' ms') = Inr ()
          \<and> validate_plasma (alias_update ?d1 ''montecarlo'' ms')
              = Inl (ValueError msg_t_inner)"
    by (simp add: ev)
  with t [of 20000 13 "- 2" 20000, THEN conjunct2, THEN conjunct2, THEN conjunct2, THEN conjunct2, THEN conjunct2, THEN conjunct1]
  have r5: "from_config_dict ext0 0 (config_with 20000 13 (- 2) 20000) False []
            = Inl (ValueError msg_t_inner)"
    by blast
  let ?d1 = "alias_update (config_with 20000 13 (- 1) 100) ''config_dirname'' (VStr [])"
  have "\<exists>ms' ss efr.
          validate_montecarlo_section ext0 0 montecarlo_damped = Inr ms'
          \<and> validate_model_branch (alias_update ?d1 ''montecarlo'' ms') = Inr ()
          \<and> py_getitem (alias_update ?d1 ''montecarlo'' ms') ''spectrum'' = Inr ss
          \<and> py_getitem ms' ''enable_full_relativity'' = Inr efr
          \<and> validate_spectrum_section ext0 ss efr = Inl (ValueError msg_spectrum)"
    by (simp add: ev)
  with t [of 20000 13 "- 1" 100, THEN conjunct2, THEN conjunct2, THEN conjunct2, THEN conjunct2, THEN conjunct2, THEN conjunct2]
  have r6: "from_config_dict ext0 0 (config_with 20000 13 (- 1) 100) False []
            = Inl (ValueError msg_spectrum)"
    by blast
  have "\<exists>tree. from_config_dict ext0 0 (config_with 20000 13 (- 1) 20000) False [] = Inr tree"
    by (simp add: ev)
  with t [of 20000 13 "- 1" 20000, THEN conjunct2, THEN conjunct1]
  have r7: "\<exists>tree ms'.
         from_config_dict ext0 0 (config_with 20000 13 (- 1) 20000) False [] = Inr tree
         \<and> validate_montecarlo_section ext0 0 montecarlo_damped = Inr ms'
         \<and> validate_model_branch
             (alias_update
               (alias_update (config_with 20000 13 (- 1) 20000) ''config_dirname'' (VStr []))
               ''montecarlo'' ms') = Inr ()"
    by blast
  from r1 r2 r3 r4 r5 r6 r7 show ?thesis by blast
qed

section \<open>Unsupported features\<close>

text \<open>
  Claim C9, as stated, fails: the facade stops at the first rule that is violated, and
  the bounds of the spectrum are checked before the method. A document with the
  integrated method, full relativity and \<^verbatim>\<open>start > stop\<close> is rejected with the
  \<^verbatim>\<open>ValueError\<close> of the bounds.
\<close>

theorem unsupported_counterexample:
  "getitem2 doc_integrated_reversed ''spectrum'' ''method'' = Inr (VStr ''integrated'')
   \<and> getitem2 doc_integrated_reversed ''montecarlo'' ''enable_full_relativity'' = Inr (VBool True)
   \<and> from_config_dict ext0 0 doc_integrated_reversed False [] = Inl (ValueError msg_spectrum)"
  by (simp add: eval_defs doc_integrated_reversed_def)

text \<open>
  Claim C9, amended. Let the document, after the optional schema validation, accept
  \<^verbatim>\<open>config_dirname\<close> and hold a montecarlo section. If the convergence strategy of
  that section is \<^verbatim>\<open>"custom"\<close>, construction fails with \<^verbatim>\<open>NotImplementedError\<close>. If
  the montecarlo rule, the rules of the model branch and the bounds of the spectrum
  pass, the spectrum method is \<^verbatim>\<open>"integrated"\<close> and \<^verbatim>\<open>enable_full_relativity\<close> has
  the truth value \<^verbatim>\<open>True\<close>, construction fails with \<^verbatim>\<open>NotImplementedError\<close> as well. This exception is
  not a \<^verbatim>\<open>ValueError\<close>, which the violated physical rules raise.
\<close>

theorem unsupported_feature_errors:
  assumes "(if validate then validate_dict x d else Inr d) = Inr v"
      and "py_setitem x n v ''config_dirname'' (VStr dir) = Inr d1"
      and "py_getitem d1 ''montecarlo'' = Inr ms"
  shows "(getitem2 ms ''convergence_strategy'' ''type'' = Inr (VStr ''custom'')
            \<longrightarrow> from_config_dict x n d validate dir = Inl NotImplementedError)
       \<and> (\<forall>ms' ss efr.
             validate_montecarlo_section x n ms = Inr ms'
             \<and> validate_model_branch (alias_update d1 ''montecarlo'' ms') = Inr ()
             \<and> py_getitem (alias_update d1 ''montecarlo'' ms') ''spectrum'' = Inr ss
             \<and> py_getitem ms' ''enable_full_relativity'' = Inr efr
             \<and> py_truthy x efr = Inr True
             \<and> check_spectrum_range ss = Inr ()
             \<and> py_getitem ss ''method'' = Inr (VStr ''integrated'')
            \<longrightarrow> from_config_dict x n d validate dir = Inl NotImplementedError)
       \<and> (\<forall>msg. NotImplementedError \<noteq> ValueError msg)"
proof (intro conjI allI impI)
  assume "getitem2 ms ''convergence_strategy'' ''type'' = Inr (VStr ''custom'')"
  then have "validate_montecarlo_section x n ms = Inl NotImplementedError"
    by (auto simp: validate_montecarlo_section_def getitem2_def bnd_def split: sum.splits)
  with assms show "from_config_dict x n d validate dir = Inl NotImplementedError"
    by (simp add: from_config_dict_def)
next
  fix ms' ss efr
  assume h: "validate_montecarlo_section x n ms = Inr ms'
             \<and> validate_model_branch (alias_update d1 ''montecarlo'' ms') = Inr ()
             \<and> py_getitem (alias_update d1 ''montecarlo'' ms') ''spectrum'' = Inr ss
             \<and> py_getitem ms' ''enable_full_relativity'' = Inr efr
             \<and> py_truthy x efr = Inr True
             \<and> check_spectrum_range ss = Inr ()
             \<and> py_getitem ss ''method'' = Inr (VStr ''integrated'')"
  then have "validate_spectrum_section x ss efr = Inl NotImplementedError"
    by (simp add: validate_spectrum_section_def)
  with assms h show "from_config_dict x n d validate dir = Inl NotImplementedError"
    by (simp add: from_config_dict_def)
next
  fix msg show "NotImplementedError \<noteq> ValueError msg" by simp
qed


theorem unsupported_feature_errors_witness:
  "from_config_dict ext0 0 doc_integrated False [] = Inl NotImplementedError
   \<and> from_config_dict ext0 0 doc_custom False [] = Inl NotImplementedError"
proof -
  let ?ms = "VDict [(''convergence_strategy'', VDict [(''type'', VStr ''damped'')]),
                    (''enable_full_relativity'', VBool True)]"
  let ?d1 = "alias_update doc_integrated ''config_dirname'' (VStr [])"
  have a1: "(if False then validate_dict ext0 doc_integrated else Inr doc_integrated)
            = Inr doc_integrated"
    by simp
  have a2: "py_setitem ext0 0 doc_integrated ''config_dirname'' (VStr []) = Inr ?d1"
    by (simp add: doc_integrated_def)
  have a3: "py_getitem ?d1 ''montecarlo'' = Inr ?ms"
    by (simp add: doc_integrated_def)
  have "\<exists>ms' ss efr.
          validate_montecarlo_section ext0 0 ?ms = Inr ms'
          \<and> validate_model_branch (alias_update ?d1 ''montecarlo'' ms') = Inr ()
          \<and> py_getitem (alias_update ?d1 ''montecarlo'' ms') ''spectrum'' = Inr ss
          \<and> py_getitem ms' ''enable_full_relativity'' = Inr efr
             \<and> py_truthy ext0 efr = Inr True
          \<and> check_spectrum_range ss = Inr ()
          \<and> py_getitem ss ''method'' = Inr (VStr ''integrated'')"
    by (simp add: eval_defs doc_integrated_def)
  with unsupported_feature_errors [OF a1 a2 a3]
  have i: "from_config_dict ext0 0 doc_integrated False [] = Inl NotImplementedError"
    by blast
  let ?mc = "VDict [(''convergence_strategy'', VDict [(''type'', VStr ''custom'')])]"
  let ?c1 = "alias_update doc_custom ''config_dirname'' (VStr [])"
  have b1: "(if False then validate_dict ext0 doc_custom else Inr doc_custom) = Inr doc_custom"
    by simp
  have b2: "py_setitem ext0 0 doc_custom ''config_dirname'' (VStr []) = Inr ?c1"
    by (simp add: doc_custom_def)
  have b3: "py_getitem ?c1 ''montecarlo'' = Inr ?mc"
    by (simp add: doc_custom_def)
  have b4: "getitem2 ?mc ''convergence_strategy'' ''type'' = Inr (VStr ''custom'')"
    by (simp add: getitem2_def)
  from unsupported_feature_errors [OF b1 b2 b3] b4
  have "from_config_dict ext0 0 doc_custom False [] = Inl NotImplementedError"
    by blast
  with i show ?thesis by simp
qed

section \<open>Assignment to a key that holds a quantity\<close>

text \<open>
  Claim C5. When a key holds a quantity of unit \<open>u\<close> and the quantity constructor
  rejects the new quantity for that unit with an exception \<open>e\<close> (astropy raises
  \<^verbatim>\<open>UnitConversionError\<close> for an incompatible dimension), \<^verbatim>\<open>__setitem__\<close> raises \<open>e\<close>
  and the node is what it was before the call; the key still holds the old quantity.
\<close>

theorem incompatible_assignment_is_atomic:
  assumes "map_of self key = Some (VQty m u)"
      and "quantity x (VQty m' u') (VUnit u) = Inl e"
  shows "setitem x n self key (VQty m' u') = (self, Some e)
       \<and> map_of (fst (setitem x n self key (VQty m' u'))) key = Some (VQty m u)"
  using assms by (simp add: coerce_to_stored_def)

theorem incompatible_assignment_is_atomic_witness:
  "setitem ext0 0 [(''time_explosion'', VQty 13 ''day'')] ''time_explosion'' (VQty 5 ''km'')
     = ([(''time_explosion'', VQty 13 ''day'')], Some UnitConversionError)"
proof -
  have a: "map_of [(''time_explosion'', VQty 13 ''day'')] ''time_explosion'' = Some (VQty 13 ''day'')"
    by simp
  have b: "quantity ext0 (VQty 5 ''km'') (VUnit ''day'') = Inl UnitConversionError"
    by (simp add: ext0_def)
  from incompatible_assignment_is_atomic [OF a b, of 0] show ?thesis by simp
qed

section \<open>Paths\<close>

declare decimal.simps [simp del]

lemma split_dot_not_Nil [simp]: "split_dot s \<noteq> []"
  by (induction s) (auto split: list.splits)

lemma split_dot_dot_free: "w \<in> set (split_dot s) \<Longrightarrow> CHR ''.'' \<notin> set w"
  by (induction s arbitrary: w) (auto split: list.splits if_splits)





lemma get_path_index:
  "startswith_item seg \<Longrightarrow>
   get_path self [k, seg]
   = bnd (ns_getitem self k) (\<lambda>c. bnd (item_index seg) (\<lambda>i. py_index c i))"
  by simp

lemma get_path_child:
  "\<not> (rest = [] \<and> startswith_item seg) \<Longrightarrow> ns_getitem self k = Inr (VNs kvs) \<Longrightarrow>
   get_path self (k # seg # rest) = get_path kvs (seg # rest)"
  by auto


lemma set_path_index:
  "startswith_item seg \<Longrightarrow> ns_getitem self k = Inr c \<Longrightarrow> item_index seg = Inr i \<Longrightarrow>
   set_index x c i v = Inr c' \<Longrightarrow>
   set_path x n self [k, seg] v = (AList.update k c' self, None)"
  by simp

lemma set_path_child:
  "\<not> (rest = [] \<and> startswith_item seg) \<Longrightarrow> ns_getitem self k = Inr (VNs kvs) \<Longrightarrow>
   set_path x n kvs (seg # rest) v = (kvs', r) \<Longrightarrow>
   set_path x n self (k # seg # rest) v = (AList.update k (VNs kvs') self, r)"
  by auto

lemma ns_getitem_update [simp]: "ns_getitem (AList.update k v self) k = Inr v"
  by (simp add: ns_getitem_def update_conv')

subsection \<open>Decimal index segments\<close>

lemma digit_char:
  "d < 10 \<Longrightarrow> is_digit (char_of (48 + d)) \<and> digit_val (char_of (48 + d)) = d"
  by (simp add: is_digit_def digit_val_def)

lemma is_digit_props:
  assumes "is_digit c"
  shows "\<not> is_space c" and "c \<noteq> CHR ''i''" and "c \<noteq> CHR ''-''" and "c \<noteq> CHR ''+''"
    and "c \<noteq> CHR ''.''"
  using assms by (auto simp: is_digit_def is_space_def)

lemma decimal_digits: "c \<in> set (decimal n) \<Longrightarrow> is_digit c"
proof (induction n arbitrary: c rule: decimal.induct)
  case (1 n)
  then show ?case
    by (subst (asm) (2) decimal.simps) (auto simp: digit_char split: if_splits)
qed












lemma item_decimal_dot_free: "CHR ''.'' \<notin> set (''item'' @ decimal n)"
  using decimal_digits [of "CHR ''.''" n] is_digit_props(5) by auto

lemmas path_eval = get_config_item_def set_config_item_def ns_getitem_def startswith_item_def
  item_index_def py_int_def strip_def is_space_def is_digit_def digit_val_def
  max_str_digits_def list_index_def list_assign_def norm_index_def

subsection \<open>Setting and getting a quantity\<close>

lemma list_assign_index:
  assumes "list_index xs i = Inr a"
  shows "\<exists>ys. list_assign xs i w = Inr ys \<and> list_index ys i = Inr w"
  using assms
  by (auto simp: list_index_def list_assign_def norm_index_def split: option.splits if_splits)

lemma py_index_quantity:
  assumes "py_index c i = Inr (VQty m u)"
  shows "\<exists>xs. c = VList xs \<and> list_index xs i = Inr (VQty m u)"
  using assms by (cases c) (auto simp: bnd_def split: sum.splits)

lemma set_index_quantity:
  assumes "py_index c i = Inr (VQty m u)" and "quantity x v (VUnit u) = Inr (m2, u2)"
  shows "\<exists>c'. set_index x c i v = Inr c' \<and> py_index c' i = Inr (VQty m2 u2)"
proof -
  from py_index_quantity [OF assms(1)] obtain xs
    where c: "c = VList xs" and xs: "list_index xs i = Inr (VQty m u)" by blast
  from list_assign_index [OF xs, of "VQty m2 u2"] obtain ys
    where "list_assign xs i (VQty m2 u2) = Inr ys" and "list_index ys i = Inr (VQty m2 u2)"
    by blast
  with c xs assms(2) show ?thesis by (simp add: set_index_def)
qed

lemma wrap_value_not_dict: "\<forall>kvs. v \<noteq> VDict kvs \<Longrightarrow> wrap_value x n v = Inr v"
  by (cases v) simp_all

lemma set_path_quantity:
  assumes "get_path self p = Inr (VQty m u)"
      and "\<forall>kvs. v \<noteq> VDict kvs"
      and "quantity x v (VUnit u) = Inr (m2, u2)"
  shows "\<exists>self'. set_path x n self p v = (self', None)
                \<and> get_path self' p = Inr (VQty m2 u2)"
  using assms
proof (induction self p rule: get_path.induct)
  case (1 self)
  then show ?case by simp
next
  case (2 self k)
  then have k: "map_of self k = Some (VQty m u)"
    by (simp add: ns_getitem_def split: option.splits)
  with 2 have "set_path x n self [k] v = (AList.update k (VQty m2 u2) self, None)"
    by (simp add: coerce_to_stored_def wrap_value_not_dict)
  moreover have "get_path (AList.update k (VQty m2 u2) self) [k] = Inr (VQty m2 u2)"
    by simp
  ultimately show ?case by blast
next
  case (3 self k seg rest)
  show ?case
  proof (cases "rest = [] \<and> startswith_item seg")
    case True
    with 3(2) obtain c i where c: "ns_getitem self k = Inr c" and i: "item_index seg = Inr i"
      and ci: "py_index c i = Inr (VQty m u)"
      by (auto simp: bnd_def split: sum.splits)
    from set_index_quantity [OF ci 3(4)] obtain c'
      where s: "set_index x c i v = Inr c'" and g: "py_index c' i = Inr (VQty m2 u2)"
      by blast
    from True c i s
    have "set_path x n self (k # seg # rest) v = (AList.update k c' self, None)"
      by (simp add: set_path_index del: set_path.simps)
    moreover from True i g
    have "get_path (AList.update k c' self) (k # seg # rest) = Inr (VQty m2 u2)"
      by (simp add: get_path_index del: get_path.simps)
    ultimately show ?thesis by blast
  next
    case False
    with 3(2) obtain kvs where c: "ns_getitem self k = Inr (VNs kvs)"
      and g: "get_path kvs (seg # rest) = Inr (VQty m u)"
      by (auto split: sum.splits val.splits)
    from 3(1) [OF False c refl g 3(3) 3(4)] obtain kvs'
      where s: "set_path x n kvs (seg # rest) v = (kvs', None)"
        and g': "get_path kvs' (seg # rest) = Inr (VQty m2 u2)"
      by blast
    have "set_path x n self (k # seg # rest) v = (AList.update k (VNs kvs') self, None)"
      by (rule set_path_child [OF False c s])
    moreover have "get_path (AList.update k (VNs kvs') self) (k # seg # rest)
          = Inr (VQty m2 u2)"
      using get_path_child [OF False, of "AList.update k (VNs kvs') self" k kvs'] g'
      by simp
    ultimately show ?thesis by blast
  qed
qed

text \<open>
  Claim C4. Let \<^verbatim>\<open>get_config_item(path)\<close> return a quantity of unit \<open>u\<close>. Setting the
  path to a value \<open>v\<close> that is not a plain mapping stores \<^verbatim>\<open>u.Quantity(v, u)\<close>, the
  value built for the unit that was stored before, and the next
  \<^verbatim>\<open>get_config_item(path)\<close> returns it. When \<open>v\<close> is a quantity of the same unit \<open>u\<close>,
  which the constructor returns as it is, the path then holds \<open>v\<close>: same magnitude, same
  unit.
\<close>

theorem set_get_round_trip:
  assumes "get_config_item self path = Inr (VQty m u)"
  shows "(\<forall>v m2 u2. (\<forall>kvs. v \<noteq> VDict kvs) \<and> quantity x v (VUnit u) = Inr (m2, u2)
            \<longrightarrow> (\<exists>self'. set_config_item x n self path v = (self', None)
                       \<and> get_config_item self' path = Inr (VQty m2 u2)))
       \<and> (\<forall>m'. quantity x (VQty m' u) (VUnit u) = Inr (m', u)
            \<longrightarrow> (\<exists>self'. set_config_item x n self path (VQty m' u) = (self', None)
                       \<and> get_config_item self' path = Inr (VQty m' u)))"
proof -
  have g: "(\<forall>kvs. v \<noteq> VDict kvs) \<and> quantity x v (VUnit u) = Inr (m2, u2)
            \<longrightarrow> (\<exists>self'. set_config_item x n self path v = (self', None)
                       \<and> get_config_item self' path = Inr (VQty m2 u2))" for v m2 u2
    using set_path_quantity [of self "split_dot path" m u v x m2 u2 n] assms
    by (simp add: get_config_item_def set_config_item_def)
  have "quantity x (VQty m' u) (VUnit u) = Inr (m', u)
            \<longrightarrow> (\<exists>self'. set_config_item x n self path (VQty m' u) = (self', None)
                       \<and> get_config_item self' path = Inr (VQty m' u))" for m'
    using g [of "VQty m' u" m' u] by simp
  with g show ?thesis by blast
qed

text \<open>
  A number set at \<^verbatim>\<open>supernova.time_explosion\<close> becomes a quantity in days, the unit
  stored there; a quantity in grams set at \<^verbatim>\<open>abundances.item2\<close> is read back as set.
\<close>

theorem set_get_round_trip_witness:
  "(\<exists>self'. set_config_item ext0 0 supernova_node ''supernova.time_explosion'' (VNum 20)
              = (self', None)
            \<and> get_config_item self' ''supernova.time_explosion'' = Inr (VQty 20 ''day''))
   \<and> (\<exists>self'. set_config_item ext0 0 supernova_node ''abundances.item2'' (VQty 7 ''g'')
              = (self', None)
            \<and> get_config_item self' ''abundances.item2'' = Inr (VQty 7 ''g''))"
proof -
  have a: "get_config_item supernova_node ''supernova.time_explosion'' = Inr (VQty 13 ''day'')"
    by (simp add: path_eval supernova_node_def)
  have b: "(\<forall>kvs. VNum 20 \<noteq> VDict kvs)
           \<and> quantity ext0 (VNum 20) (VUnit ''day'') = Inr (20, ''day'')"
    by (simp add: ext0_def)
  have c: "get_config_item supernova_node ''abundances.item2'' = Inr (VQty 3 ''g'')"
    by (simp add: path_eval supernova_node_def)
  have d: "quantity ext0 (VQty 7 ''g'') (VUnit ''g'') = Inr (7, ''g'')"
    by (simp add: ext0_def)
  from set_get_round_trip [OF a, of ext0 0] b set_get_round_trip [OF c, of ext0 0] d
  show ?thesis by blast
qed

subsection \<open>Resolution of a path\<close>







section \<open>The constructor of the namespace\<close>

text \<open>The loop of the constructor stores exactly the keys of the mapping.\<close>

lemma setitem_keys:
  "setitem x n self k v = (s, None) \<Longrightarrow> fst ` set s = insert k (fst ` set self)"
proof -
  assume "setitem x n self k v = (s, None)"
  then obtain c where "s = AList.update k c self"
    by (auto split: sum.splits)
  then show ?thesis by (simp add: dom_update)
qed

lemma fill_keys:
  "fill x n acc kvs = Inr self \<Longrightarrow> fst ` set self = fst ` set acc \<union> fst ` set kvs"
proof (induction kvs arbitrary: acc)
  case Nil
  then show ?case by simp
next
  case (Cons kv kvs)
  obtain k v where kv: "kv = (k, v)" by (cases kv)
  from Cons.prems kv obtain s where s: "setitem x n acc k v = (s, None)"
    and f: "fill x n s kvs = Inr self"
    by (auto simp del: setitem.simps split: prod.splits option.splits)
  from Cons.IH [OF f] setitem_keys [OF s] kv show ?case by auto
qed

lemma setitem_fresh:
  "wrap_value x n v = Inr w \<Longrightarrow> k \<notin> fst ` set self \<Longrightarrow>
   setitem x n self k v = (AList.update k w self, None)"
proof -
  assume w: "wrap_value x n v = Inr w" and "k \<notin> fst ` set self"
  then have "map_of self k = None" by (simp add: map_of_eq_None_iff)
  with w show ?thesis by (simp add: coerce_to_stored_def)
qed

lemma fill_succeeds:
  "distinct (map fst kvs) \<Longrightarrow> fst ` set acc \<inter> fst ` set kvs = {} \<Longrightarrow>
   \<forall>(k, v)\<in>set kvs. \<exists>w. wrap_value x n v = Inr w \<Longrightarrow>
   \<exists>self. fill x n acc kvs = Inr self"
proof (induction kvs arbitrary: acc)
  case Nil
  then show ?case by simp
next
  case (Cons kv kvs)
  obtain k v where kv: "kv = (k, v)" by (cases kv)
  with Cons.prems obtain w where w: "wrap_value x n v = Inr w" by auto
  from Cons.prems kv have fresh: "k \<notin> fst ` set acc" by auto
  have s: "setitem x n acc k v = (AList.update k w acc, None)"
    by (rule setitem_fresh [OF w fresh])
  from Cons.prems kv have "fst ` set (AList.update k w acc) \<inter> fst ` set kvs = {}"
    by (auto simp: dom_update)
  with Cons.IH [of "AList.update k w acc"] Cons.prems
  obtain self where "fill x n (AList.update k w acc) kvs = Inr self" by auto
  with s kv show ?case by (simp del: setitem.simps)
qed


lemma init_ns_both:
  assumes "fill x n [] kvs = Inr self" and "''model'' \<in> fst ` set kvs"
      and "''csvy_model'' \<in> fst ` set kvs"
  shows "init_ns x n (VDict kvs) = Inl (ValueError msg_both)"
proof -
  from fill_keys [OF assms(1)] assms(2,3)
  have "ns_hasattr self ''csvy_model'' \<and> ns_hasattr self ''model''"
    by (simp add: ns_hasattr_def)
  with assms(1) show ?thesis by simp
qed

lemma init_ns_fill_fails: "fill x n [] kvs = Inl e \<Longrightarrow> init_ns x n (VDict kvs) = Inl e"
  by simp

text \<open>
  Claim C6, as stated, fails: the entries are stored before the two keys are compared,
  and storing a nested mapping builds a namespace for it first. A model section that
  has a key \<^verbatim>\<open>csvy_model\<close> and no \<^verbatim>\<open>config_dirname\<close> raises \<^verbatim>\<open>AttributeError\<close> in
  its own constructor.
\<close>

theorem mutual_exclusion_counterexample:
  "py_has_key doc_both ''model'' = Inr True \<and> py_has_key doc_both ''csvy_model'' = Inr True
   \<and> init_ns ext0 0 doc_both = Inl AttributeError"
  by (simp add: doc_both_def ns_hasattr_def ns_getattr_def coerce_to_stored_def)

text \<open>
  Claim C6, amended. A document that declares both \<^verbatim>\<open>model\<close> and \<^verbatim>\<open>csvy_model\<close> never
  yields a namespace. The exception is the mutual-exclusion \<^verbatim>\<open>ValueError\<close> whenever
  every value of the document can itself be stored, that is, converts without an
  exception (the keys of a Python dict are distinct).
\<close>

theorem mutual_exclusion:
  assumes "''model'' \<in> fst ` set kvs" and "''csvy_model'' \<in> fst ` set kvs"
  shows "(\<exists>e. init_ns x n (VDict kvs) = Inl e)
       \<and> (distinct (map fst kvs) \<and> (\<forall>(k, v)\<in>set kvs. \<exists>w. wrap_value x n v = Inr w)
            \<longrightarrow> init_ns x n (VDict kvs) = Inl (ValueError msg_both))"
proof (intro conjI impI)
  show "\<exists>e. init_ns x n (VDict kvs) = Inl e"
  proof (cases "fill x n [] kvs")
    case (Inl e)
    then show ?thesis using init_ns_fill_fails by blast
  next
    case (Inr self)
    then show ?thesis using init_ns_both assms by blast
  qed
next
  assume "distinct (map fst kvs) \<and> (\<forall>(k, v)\<in>set kvs. \<exists>w. wrap_value x n v = Inr w)"
  then obtain self where "fill x n [] kvs = Inr self"
    using fill_succeeds [of kvs "[]" x n] by auto
  then show "init_ns x n (VDict kvs) = Inl (ValueError msg_both)"
    using init_ns_both assms by blast
qed

theorem mutual_exclusion_witness:
  "init_ns ext0 0 doc_both_plain = Inl (ValueError msg_both)"
proof -
  let ?kvs = "[(''csvy_model'', VStr ''model.csvy''),
            (''model'', VDict [(''structure'', VDict [(''type'', VStr ''specific'')])])]"
  have a: "''model'' \<in> fst ` set ?kvs" and b: "''csvy_model'' \<in> fst ` set ?kvs"
    by simp_all
  have c: "distinct (map fst ?kvs) \<and> (\<forall>(k, v)\<in>set ?kvs. \<exists>w. wrap_value ext0 0 v = Inr w)"
    by (simp add: ns_hasattr_def coerce_to_stored_def)
  from mutual_exclusion [OF a b, of ext0 0] c show ?thesis
    unfolding doc_both_plain_def by blast
qed

section \<open>No plain mapping behind a key\<close>

lemma no_raw_update:
  "no_raw (VNs self) \<Longrightarrow> \<not> is_plain_dict c \<Longrightarrow> no_raw c \<Longrightarrow>
   no_raw (VNs (AList.update k c self))"
  by (induction self) auto

lemma no_raw_lookup:
  "no_raw (VNs self) \<Longrightarrow> map_of self k = Some v \<Longrightarrow> \<not> is_plain_dict v \<and> no_raw v"
  by (auto dest!: map_of_SomeD)

lemma no_raw_csvy_model_dict:
  "\<forall>v\<in>snd ` set yml. no_raw v \<Longrightarrow> no_raw (VDict (csvy_model_dict yml))"
  by (auto simp: csvy_model_dict_def split: option.splits dest!: map_of_SomeD [OF sym])

lemma coerce_to_stored_no_raw:
  "coerce_to_stored x self k w = Inr c \<Longrightarrow> \<not> is_plain_dict w \<Longrightarrow> no_raw w \<Longrightarrow>
   \<not> is_plain_dict c \<and> no_raw c"
  by (auto simp: coerce_to_stored_def bnd_def split: option.splits sum.splits)

lemma constructor_no_raw:
  shows "csvy_no_raw x \<Longrightarrow> no_raw v \<Longrightarrow> wrap_value x n v = Inr w
         \<Longrightarrow> \<not> is_plain_dict w \<and> no_raw w"
    and "csvy_no_raw x1 \<Longrightarrow> no_raw v1 \<Longrightarrow> init_ns x1 n1 v1 = Inr self1 \<Longrightarrow> no_raw (VNs self1)"
    and "csvy_no_raw x2 \<Longrightarrow> no_raw (VNs acc) \<Longrightarrow> \<forall>v\<in>snd ` set kvs. no_raw v
         \<Longrightarrow> fill x2 n2 acc kvs = Inr self2 \<Longrightarrow> no_raw (VNs self2)"
    and "csvy_no_raw x3 \<Longrightarrow> no_raw (VNs self3) \<Longrightarrow> no_raw v3
         \<Longrightarrow> setitem x3 n3 self3 k3 v3 = (self3', r3) \<Longrightarrow> no_raw (VNs self3')"
    and "csvy_no_raw x4 \<Longrightarrow> no_raw (VNs self4)
         \<Longrightarrow> reassign x4 n4 self4 ks = Inr self4' \<Longrightarrow> no_raw (VNs self4')"
proof (induction x n v and x1 n1 v1 and x2 n2 acc kvs and x3 n3 self3 k3 v3 and x4 n4 self4 ks
       arbitrary: w and self1 and self2 and self3' r3 and self4'
       rule: wrap_value_init_ns_fill_setitem_reassign.induct)
  case (1 x n kvs)
  then show ?case
    by (auto simp del: init_ns.simps simp: bnd_def split: sum.splits)
next
  case (3 x n v)
  from "3.prems"(3) obtain self0 where
    s0: "(case v of VNone \<Rightarrow> Inr [] | VDict kvs \<Rightarrow> fill x n [] kvs
          | VNs kvs \<Rightarrow> fill x n [] kvs | _ \<Rightarrow> Inl TypeError) = Inr self0"
    by (auto simp: bnd_def split: sum.splits)
  have ok0: "no_raw (VNs self0)"
  proof (cases v)
    case (VDict kvs)
    with s0 "3.prems" "3.IH"(1) [OF VDict, of self0] show ?thesis by simp
  next
    case (VNs kvs)
    with s0 "3.prems" "3.IH"(2) [OF VNs, of self0] show ?thesis by simp
  qed (use s0 in auto)
  show ?case
  proof (cases "ns_hasattr self0 ''csvy_model''")
    case False
    with "3.prems"(3) s0 have "self1 = self0" by simp
    with ok0 show ?thesis by simp
  next
    case True
    with "3.prems"(3) s0 have nm: "\<not> (ns_hasattr self0 ''csvy_model'' \<and> ns_hasattr self0 ''model'')"
      by (auto split: if_splits)
    from "3.prems"(3) s0 True nm obtain dirname csvy yml m s mk mk' where
      l: "load_yaml_from_csvy x dirname csvy = Inr yml" and n: "n = Suc m"
      and st: "setitem x m self0 ''model'' (VDict (csvy_model_dict yml)) = (s, None)"
      and mo: "map_of s ''model'' = Some (VNs mk)"
      and re: "reassign x m mk (map fst mk) = Inr mk'"
      and se: "self1 = AList.update ''model'' (VNs mk') s"
      by (auto simp del: setitem.simps simp: bnd_def
          split: sum.splits nat.splits prod.splits option.splits val.splits)
    from "3.prems"(1) l have "no_raw (VDict (csvy_model_dict yml))"
      by (intro no_raw_csvy_model_dict) (auto simp: csvy_no_raw_def)
    with "3.IH"(3) [OF nm True n "3.prems"(1) ok0 _ st] have oks: "no_raw (VNs s)"
      by simp
    with mo have "no_raw (VNs mk)" using no_raw_lookup by blast
    with "3.IH"(4) [OF nm True n st [symmetric] refl mo refl "3.prems"(1) _ re]
    have "no_raw (VNs mk')" by simp
    with oks se show ?thesis
      by (simp add: no_raw_update del: no_raw.simps)
  qed
next
  case (4 x n self)
  then show ?case by simp
next
  case (5 x n self k v rest)
  from "5.prems"(4) obtain s where st: "setitem x n self k v = (s, None)"
    and f: "fill x n s rest = Inr self2"
    by (auto simp del: setitem.simps split: prod.splits option.splits)
  from "5.IH"(1) [OF "5.prems"(1,2) _ st] "5.prems"(3) have "no_raw (VNs s)" by simp
  with "5.IH"(2) [OF st [symmetric] refl "5.prems"(1) _ _ f] "5.prems"(3)
  show ?case by simp
next
  case (6 x n self key v)
  show ?case
  proof (cases "wrap_value x n v")
    case (Inl e)
    with "6.prems" show ?thesis by simp
  next
    case (Inr w)
    from "6.IH" [OF "6.prems"(1,3) Inr] have w: "\<not> is_plain_dict w \<and> no_raw w" .
    show ?thesis
    proof (cases "coerce_to_stored x self key w")
      case (Inl e)
      with Inr "6.prems" show ?thesis by simp
    next
      case c: (Inr c)
      with w have "\<not> is_plain_dict c \<and> no_raw c" using coerce_to_stored_no_raw by blast
      moreover from Inr c "6.prems"(4) have "self3' = AList.update key c self" by simp
      ultimately show ?thesis using "6.prems"(2)
        by (simp add: no_raw_update del: no_raw.simps)
    qed
  qed
next
  case (7 x n self)
  then show ?case by simp
next
  case (8 x n self k ks)
  from "8.prems"(3) obtain v s where m: "map_of self k = Some v"
    and st: "setitem x n self k v = (s, None)" and r: "reassign x n s ks = Inr self4'"
    by (auto simp del: setitem.simps split: option.splits prod.splits)
  from m "8.prems"(2) have "no_raw v" using no_raw_lookup by blast
  with "8.IH"(1) [OF m "8.prems"(1,2) _ st] have "no_raw (VNs s)" by simp
  with "8.IH"(2) [OF m st [symmetric] refl "8.prems"(1) _ r] show ?case by simp
qed auto


lemma no_raw_child:
  "no_raw (VNs self) \<Longrightarrow> ns_getitem self k = Inr c \<Longrightarrow> \<not> is_plain_dict c \<and> no_raw c"
  using no_raw_lookup [of self k c]
  by (simp add: ns_getitem_def del: no_raw.simps split: option.splits)

lemma set_index_list: "set_index x c i v = Inr c' \<Longrightarrow> \<exists>ys. c' = VList ys"
  by (cases c)
     (auto simp: set_index_def bnd_def split: sum.splits prod.splits)

lemma set_path_absent:
  "\<not> (rest = [] \<and> startswith_item seg) \<Longrightarrow> ns_getitem self k = Inl e \<Longrightarrow>
   set_path x n self (k # seg # rest) v = (self, Some e)"
  by auto

lemma set_path_not_ns:
  "\<not> (rest = [] \<and> startswith_item seg) \<Longrightarrow> ns_getitem self k = Inr c \<Longrightarrow>
   \<forall>kvs. c \<noteq> VNs kvs \<Longrightarrow>
   set_path x n self (k # seg # rest) v = (self, Some AttributeError)"
  by (cases c) auto

lemma set_path_no_raw:
  "csvy_no_raw x \<Longrightarrow> no_raw (VNs self) \<Longrightarrow> no_raw v \<Longrightarrow>
   set_path x n self p v = (self', r) \<Longrightarrow> no_raw (VNs self')"
proof (induction x n self p v arbitrary: self' r rule: set_path.induct)
  case (1 x n self v)
  then show ?case by simp
next
  case (2 x n self k v)
  then show ?case using constructor_no_raw(4) [of x self v n k self' r] by simp
next
  case (3 x n self k seg rest v)
  show ?case
  proof (cases "rest = [] \<and> startswith_item seg")
    case True
    show ?thesis
    proof (cases "bnd (ns_getitem self k) (\<lambda>c. bnd (item_index seg) (\<lambda>i. set_index x c i v))")
      case (Inl e)
      with True "3.prems" show ?thesis by simp
    next
      case (Inr c')
      then obtain ys where "c' = VList ys"
        by (auto simp: bnd_def split: sum.splits dest: set_index_list)
      moreover from True Inr "3.prems"(4) have "self' = AList.update k c' self"
        by simp
      ultimately show ?thesis using "3.prems"(2)
        by (simp add: no_raw_update del: no_raw.simps(1,2))
    qed
  next
    case False
    show ?thesis
    proof (cases "ns_getitem self k")
      case (Inl e)
      from set_path_absent [OF False Inl] "3.prems"(4) have "self' = self" by simp
      with "3.prems"(2) show ?thesis by simp
    next
      case (Inr c)
      show ?thesis
      proof (cases "\<exists>kvs. c = VNs kvs")
        case True
        then obtain kvs where c: "c = VNs kvs" by blast
        obtain kvs' r' where s: "set_path x n kvs (seg # rest) v = (kvs', r')"
          by (cases "set_path x n kvs (seg # rest) v")
        from Inr c "3.prems"(2) have "no_raw (VNs kvs)"
          using no_raw_child by blast
        from "3.IH" [OF False Inr c "3.prems"(1) this "3.prems"(3) s]
        have k: "no_raw (VNs kvs')" .
        from set_path_child [OF False Inr [unfolded c] s] "3.prems"(4)
        have "self' = AList.update k (VNs kvs') self" by simp
        with k "3.prems"(2) show ?thesis
          by (simp add: no_raw_update del: no_raw.simps)
      next
        case F: False
        then have "\<forall>kvs. c \<noteq> VNs kvs" by blast
        from set_path_not_ns [OF False Inr this] "3.prems"(4) have "self' = self" by simp
        with "3.prems"(2) show ?thesis by simp
      qed
    qed
  qed
qed

lemma get_path_no_raw:
  "no_raw (VNs self) \<Longrightarrow> get_path self p = Inr w \<Longrightarrow>
   length p = 1 \<or> \<not> startswith_item (last p) \<Longrightarrow> \<not> is_plain_dict w \<and> no_raw w"
proof (induction self p rule: get_path.induct)
  case (1 self)
  then show ?case by simp
next
  case (2 self k)
  then show ?case using no_raw_child [of self k w] by simp
next
  case (3 self k seg rest)
  from "3.prems"(3) have n: "\<not> (rest = [] \<and> startswith_item seg)" by auto
  with "3.prems"(2) obtain kvs where c: "ns_getitem self k = Inr (VNs kvs)"
    and g: "get_path kvs (seg # rest) = Inr w"
    by (auto split: sum.splits val.splits)
  from c "3.prems"(1) have "no_raw (VNs kvs)"
    using no_raw_child by blast
  from "3.IH" [OF n c refl this g] "3.prems"(3) show ?case by auto
qed

text \<open>
  Claim C8, as stated, fails for sequences: \<^verbatim>\<open>__setitem__\<close> converts a value only
  when the value itself is a \<^verbatim>\<open>dict\<close>. A mapping inside a list is stored as it is and
  \<^verbatim>\<open>get_config_item\<close> returns it, and \<^verbatim>\<open>set_config_item\<close> with an index segment
  assigns into the list without any conversion.
\<close>

theorem list_keeps_raw_mapping_counterexample:
  "init_ns ext0 0 doc_list_of_dicts = Inr [(''a'', VList [VDict [(''b'', VNum 1)]])]
   \<and> get_config_item [(''a'', VList [VDict [(''b'', VNum 1)]])] ''a.item0''
       = Inr (VDict [(''b'', VNum 1)])
   \<and> set_config_item ext0 0 [(''a'', VList [VNum 0])] ''a.item0'' (VDict [(''z'', VNum 2)])
       = ([(''a'', VList [VDict [(''z'', VNum 2)]])], None)"
  by (simp add: doc_list_of_dicts_def ns_hasattr_def coerce_to_stored_def path_eval
      set_index_def)


text \<open>
  Claim C8, amended. Construction from a mapping, assignment to a key and
  \<^verbatim>\<open>set_config_item\<close> keep the property that no namespace node, at any depth reached
  through mappings, holds a plain mapping as the value of a key; so a path of keys
  (without an index segment) never returns a plain mapping. The stored values and the
  values of auxiliary documents are assumed to contain no namespace that already
  violates the property. Nothing is said about the elements of sequences.
\<close>

theorem no_raw_mapping_through_keys:
  assumes "csvy_no_raw x"
  shows "(\<forall>v self. no_raw v \<and> init_ns x n v = Inr self \<longrightarrow> no_raw (VNs self))
       \<and> (\<forall>self k v self' r.
             no_raw (VNs self) \<and> no_raw v \<and> setitem x n self k v = (self', r)
             \<longrightarrow> no_raw (VNs self'))
       \<and> (\<forall>self path v self' r.
             no_raw (VNs self) \<and> no_raw v \<and> set_config_item x n self path v = (self', r)
             \<longrightarrow> no_raw (VNs self'))
       \<and> (\<forall>self path w.
             no_raw (VNs self) \<and> get_config_item self path = Inr w
             \<and> (length (split_dot path) = 1 \<or> \<not> startswith_item (last (split_dot path)))
             \<longrightarrow> \<not> is_plain_dict w)"
proof (intro conjI allI impI)
  fix v self
  assume "no_raw v \<and> init_ns x n v = Inr self"
  then show "no_raw (VNs self)" using constructor_no_raw(2) [OF assms] by blast
next
  fix self k v self' r
  assume "no_raw (VNs self) \<and> no_raw v \<and> setitem x n self k v = (self', r)"
  then show "no_raw (VNs self')" using constructor_no_raw(4) [OF assms] by blast
next
  fix self path v self' r
  assume "no_raw (VNs self) \<and> no_raw v \<and> set_config_item x n self path v = (self', r)"
  then show "no_raw (VNs self')"
    using set_path_no_raw [OF assms] by (auto simp: set_config_item_def simp del: no_raw.simps)
next
  fix self path w
  assume "no_raw (VNs self) \<and> get_config_item self path = Inr w
          \<and> (length (split_dot path) = 1 \<or> \<not> startswith_item (last (split_dot path)))"
  then show "\<not> is_plain_dict w"
    using get_path_no_raw [of self "split_dot path" w]
    by (auto simp: get_config_item_def simp del: no_raw.simps)
qed

theorem no_raw_mapping_through_keys_witness:
  "init_ns ext0 0 doc_model = Inr node_model
   \<and> no_raw (VNs node_model)
   \<and> no_raw (VNs (fst (setitem ext0 0 node_model ''plasma'' (VDict [(''nlte'', VDict [])]))))
   \<and> no_raw (VNs (fst (set_config_item ext0 0 node_model ''model.structure.density''
                        (VDict [(''type'', VStr ''uniform'')]))))
   \<and> get_config_item node_model ''model.structure'' = Inr (VNs [(''type'', VStr ''specific'')])
   \<and> \<not> is_plain_dict (VNs [(''type'', VStr ''specific'')])"
proof -
  have c: "csvy_no_raw ext0"
    by (simp add: csvy_no_raw_def ext0_def)
  note t = no_raw_mapping_through_keys [OF c, of 0]
  have i: "init_ns ext0 0 doc_model = Inr node_model"
    by (simp add: doc_model_def node_model_def ns_hasattr_def coerce_to_stored_def)
  have d: "no_raw doc_model"
    by (simp add: doc_model_def)
  from t d i have n: "no_raw (VNs node_model)"
    by blast
  have v1: "no_raw (VDict [(''nlte'', VDict [])])" and v2: "no_raw (VDict [(''type'', VStr ''uniform'')])"
    by simp_all
  from t n v1 have s1: "no_raw (VNs (fst (setitem ext0 0 node_model ''plasma'' (VDict [(''nlte'', VDict [])]))))"
    by (metis prod.collapse)
  from t n v2 have s2: "no_raw (VNs (fst (set_config_item ext0 0 node_model ''model.structure.density''
                        (VDict [(''type'', VStr ''uniform'')]))))"
    by (metis prod.collapse)
  have g: "get_config_item node_model ''model.structure'' = Inr (VNs [(''type'', VStr ''specific'')])"
    by (simp add: path_eval node_model_def)
  have l: "length (split_dot ''model.structure'') = 1
           \<or> \<not> startswith_item (last (split_dot ''model.structure''))"
    by (simp add: startswith_item_def)
  from t n g l have w: "\<not> is_plain_dict (VNs [(''type'', VStr ''specific'')])"
    by blast
  from i n s1 s2 g w show ?thesis by blast
qed

end
